theory Spec2Isabelle
  imports Complex_Main "HOL-Library.Sublist"
begin

section \<open>Text\<close>

text \<open>
  A Python \<open>str\<close> is modelled as a \<open>string\<close>, one \<open>char\<close> per code point, for the
  code points below 256 (ASCII and Latin-1). \<open>str.lower()\<close> maps the upper-case letters of
  that range (\<open>A\<close>..\<open>Z\<close>, and \<open>0xC0\<close>..\<open>0xDE\<close> without the multiplication sign \<open>0xD7\<close>)
  to the code point 32 above, and leaves every other character alone.
\<close>

definition isupper :: "char \<Rightarrow> bool" where
  "isupper c =
     (let n = (of_char c :: nat)
      in (65 \<le> n \<and> n \<le> 90) \<or> (192 \<le> n \<and> n \<le> 222 \<and> n \<noteq> 215))"

definition lower_char :: "char \<Rightarrow> char" where
  "lower_char c = (if isupper c then char_of ((of_char c :: nat) + 32) else c)"

definition lower :: "string \<Rightarrow> string" where
  "lower s = map lower_char s"

text \<open>Python's \<open>needle in haystack\<close> on strings: \<open>needle\<close> occurs as a contiguous run.\<close>

fun startswith :: "string \<Rightarrow> string \<Rightarrow> bool" where
  "startswith s [] = True"
| "startswith [] (p # ps) = False"
| "startswith (c # cs) (p # ps) = (c = p \<and> startswith cs ps)"

fun str_in :: "string \<Rightarrow> string \<Rightarrow> bool" where
  "str_in needle [] = (needle = [])"
| "str_in needle (c # cs) = (startswith (c # cs) needle \<or> str_in needle cs)"

text \<open>
  \<open>str.strip()\<close>: drops leading and trailing whitespace, which below code point 256 is
  \<open>0x09\<close>..\<open>0x0D\<close>, \<open>0x1C\<close>..\<open>0x20\<close>, \<open>0x85\<close> and \<open>0xA0\<close>.
\<close>

definition isspace :: "char \<Rightarrow> bool" where
  "isspace c =
     (let n = (of_char c :: nat)
      in (9 \<le> n \<and> n \<le> 13) \<or> (28 \<le> n \<and> n \<le> 32) \<or> n = 133 \<or> n = 160)"

definition strip :: "string \<Rightarrow> string" where
  "strip s = rev (dropWhile isspace (rev (dropWhile isspace s)))"

text \<open>Decimal rendering of a natural number, as \<open>str(n)\<close> and the \<open>%d\<close>-style fields need it.\<close>

definition digit_char :: "nat \<Rightarrow> char" where
  "digit_char d = char_of (48 + d mod 10)"

fun str_nat :: "nat \<Rightarrow> string" where
  "str_nat n = (if n < 10 then [digit_char n] else str_nat (n div 10) @ [digit_char (n mod 10)])"

declare str_nat.simps [simp del]

text \<open>Left padding with zeros to a width, as the formats \<open>%02d\<close> and \<open>%04d\<close> do.\<close>

definition zfill :: "nat \<Rightarrow> string \<Rightarrow> string" where
  "zfill width s = replicate (width - length s) CHR ''0'' @ s"

text \<open>\<open>s.replace(' ', sep)\<close>, the only replacement the scrapers make.\<close>

definition replace_spaces :: "string \<Rightarrow> string \<Rightarrow> string" where
  "replace_spaces sep s = concat (map (\<lambda>c. if c = CHR '' '' then sep else [c]) s)"

section \<open>The clock\<close>

text \<open>
  \<open>datetime.now()\<close> is a reading of the system clock; the functions that read it take the
  reading as their argument \<open>now\<close>. One call of a function is given one reading. The clock
  of a running system is far after year 1, so \<open>now - timedelta(days=1)\<close> cannot leave
  \<open>datetime\<close>'s range and is the previous calendar day at the same time of day.
\<close>

record datetime =
  year :: nat
  month :: nat
  day :: nat
  hour :: nat
  minute :: nat
  second :: nat
  microsecond :: nat

definition is_leap :: "nat \<Rightarrow> bool" where
  "is_leap y = (y mod 4 = 0 \<and> (y mod 100 \<noteq> 0 \<or> y mod 400 = 0))"

definition days_in_month :: "nat \<Rightarrow> nat \<Rightarrow> nat" where
  "days_in_month y m =
     (if m = 2 then (if is_leap y then 29 else 28)
      else if m = 4 \<or> m = 6 \<or> m = 9 \<or> m = 11 then 30 else 31)"

definition minus_one_day :: "datetime \<Rightarrow> datetime" where
  "minus_one_day t =
     (if 1 < day t then t\<lparr>day := day t - 1\<rparr>
      else if 1 < month t then t\<lparr>month := month t - 1, day := days_in_month (year t) (month t - 1)\<rparr>
      else t\<lparr>year := year t - 1, month := 12, day := 31\<rparr>)"

text \<open>\<open>%b\<close> in the C locale, which a Python process has unless it calls \<open>setlocale\<close>.\<close>

definition month_abbr :: "nat \<Rightarrow> string" where
  "month_abbr m =
     (if m = 1 then ''Jan'' else if m = 2 then ''Feb'' else if m = 3 then ''Mar''
      else if m = 4 then ''Apr'' else if m = 5 then ''May'' else if m = 6 then ''Jun''
      else if m = 7 then ''Jul'' else if m = 8 then ''Aug'' else if m = 9 then ''Sep''
      else if m = 10 then ''Oct'' else if m = 11 then ''Nov'' else ''Dec'')"

text \<open>
  \<open>strftime('%d %b %Y')\<close>, for example \<open>05 Jan 2025\<close>; the C library prints the year
  without padding, which is four digits for every year a clock shows.
\<close>

definition strftime_d_b_Y :: "datetime \<Rightarrow> string" where
  "strftime_d_b_Y t = zfill 2 (str_nat (day t)) @ '' '' @ month_abbr (month t) @ '' '' @ str_nat (year t)"

text \<open>\<open>datetime.isoformat()\<close>: the fraction is printed unless the microseconds are zero.\<close>

definition isoformat :: "datetime \<Rightarrow> string" where
  "isoformat t =
     zfill 4 (str_nat (year t)) @ ''-'' @ zfill 2 (str_nat (month t)) @ ''-'' @
     zfill 2 (str_nat (day t)) @ ''T'' @ zfill 2 (str_nat (hour t)) @ '':'' @
     zfill 2 (str_nat (minute t)) @ '':'' @ zfill 2 (str_nat (second t)) @
     (if microsecond t = 0 then [] else ''.'' @ zfill 6 (str_nat (microsecond t)))"

section \<open>Recency classifier\<close>

text \<open>
  \<open>is_recent_job\<close> of \<open>SimpleJobScraper\<close> and of \<open>EnhancedJobScraper\<close> (the two bodies are the
  same). The argument is \<open>None\<close> for Python's \<open>None\<close>; \<open>not date_text\<close> holds for \<open>None\<close> and
  for the empty string.
\<close>

definition recent_indicators :: "datetime \<Rightarrow> string list" where
  "recent_indicators now =
     [''hours ago'',
      ''hour ago'',
      ''today'',
      ''just now'',
      ''1 day ago'',
      ''yesterday'',
      strftime_d_b_Y now,
      strftime_d_b_Y (minus_one_day now)]"

definition is_recent_job :: "datetime \<Rightarrow> string option \<Rightarrow> bool" where
  "is_recent_job now date_text =
     (case date_text of
        None \<Rightarrow> False
      | Some text \<Rightarrow>
          if text = [] then False
          else (let date_text_lower = lower text
                in list_ex (\<lambda>indicator. str_in indicator date_text_lower) (recent_indicators now)))"

section \<open>Postings\<close>

text \<open>
  A posting is the dictionary \<open>job_data\<close> the scrapers build. A key that is set later
  than the dictionary is created (\<open>search_term\<close> and \<open>is_recent\<close> in the browser scraper,
  \<open>relevance_score\<close> and \<open>is_public_health\<close> in both) is \<open>None\<close> while it is absent. \<open>url\<close> is
  \<open>None\<close> where the browser scraper stores Python's \<open>None\<close>, which \<open>get_attribute('href')\<close>
  returns for a link without that attribute.

  \<open>relevance_score\<close> is a Python float. It is modelled by the rational number it
  approximates: the scorers divide a count by 23 or by 16; the sixteenths are doubles
  themselves, every multiple of \<open>100/23\<close> is at least \<open>1/46\<close> away from a tie, and every
  quotient is at least \<open>1/100\<close> away from its threshold, so the comparison with the
  threshold and the digits that \<open>round(x, 2)\<close> chooses are those of the exact quotient.
\<close>

record job =
  title :: string
  organization :: string
  location :: string
  url :: "string option"
  date_posted :: string
  source :: string
  scraped_at :: string
  search_term :: "string option"
  is_recent :: "bool option"
  relevance_score :: "rat option"
  is_public_health :: "bool option"

datatype error =
    Timeout
  | ConnectionError
  | HTTPError nat
  | JSONDecodeError
  | KeyError string
  | AttributeError
  | TypeError
  | NoSuchElementException string
  | WebDriverException

text \<open>What a scraper does on the network, in the order it does it.\<close>

datatype event =
    HttpGet string
  | JsonDecode
  | HtmlParse
  | BrowserGet string

section \<open>Relevance scorer\<close>

text \<open>
  \<open>round(x, 2)\<close> on a float rounds the exact value to the nearest hundredth, a tie to the
  even hundredth.
\<close>

definition round_half_even :: "rat \<Rightarrow> int" where
  "round_half_even x =
     (let f = \<lfloor>x\<rfloor>; d = x - of_int f
      in if d < 1/2 then f else if 1/2 < d then f + 1 else if even f then f else f + 1)"

definition py_round2 :: "rat \<Rightarrow> rat" where
  "py_round2 x = of_int (round_half_even (x * 100)) / 100"

text \<open>\<open>sum(1 for keyword in keywords if keyword in job_text)\<close>\<close>

definition keyword_matches :: "string list \<Rightarrow> string \<Rightarrow> nat" where
  "keyword_matches keywords job_text = length (filter (\<lambda>keyword. str_in keyword job_text) keywords)"

text \<open>The vocabulary of \<open>SimpleJobScraper.filter_public_health_jobs\<close> (fn.py).\<close>

definition public_health_keywords :: "string list" where
  "public_health_keywords =
     [''public health'', ''monitoring'', ''evaluation'', ''m&e'', ''data'',
      ''health'', ''strategic information'', ''commcare'', ''dhis2'',
      ''survey'', ''research'', ''impact assessment'', ''health program'',
      ''global health'', ''health systems'', ''epidemiology'', ''health'',
      ''maternal'', ''child health'', ''hiv'', ''tb'', ''malaria'', ''nutrition'']"

text \<open>The vocabulary of \<open>EnhancedJobScraper.filter_public_health_jobs\<close> (branch.py).\<close>

definition enhanced_public_health_keywords :: "string list" where
  "enhanced_public_health_keywords =
     [''public health'', ''monitoring'', ''evaluation'', ''m&e'', ''data'',
      ''health'', ''strategic information'', ''commcare'', ''dhis2'',
      ''survey'', ''research'', ''impact assessment'', ''health program'',
      ''global health'', ''health systems'', ''epidemiology'']"

text \<open>
  \<open>filter_public_health_jobs\<close> writes the score into every dictionary of its argument and
  returns the list of those at or above the threshold. The model returns that list first
  and the argument as the call leaves it second.
\<close>

definition job_text_simple :: "job \<Rightarrow> string" where
  "job_text_simple job = lower (title job @ '' '' @ organization job)"

fun filter_public_health_jobs :: "job list \<Rightarrow> job list \<times> job list" where
  "filter_public_health_jobs [] = ([], [])"
| "filter_public_health_jobs (job # jobs) =
     (let job_text = job_text_simple job;
          matches = keyword_matches public_health_keywords job_text;
          score = (of_nat matches :: rat) / of_nat (length public_health_keywords);
          job' = job\<lparr>relevance_score := Some (py_round2 score),
                      is_public_health := Some (1/5 \<le> score)\<rparr>;
          rest = filter_public_health_jobs jobs
      in if 1/5 \<le> score then (job' # fst rest, job' # snd rest)
         else (fst rest, job' # snd rest))"

text \<open>
  The browser scraper scores the title and the key \<open>description\<close>, which no scraper sets:
  \<open>job.get('description', '')\<close> is the empty string.
\<close>

definition job_text_enhanced :: "job \<Rightarrow> string" where
  "job_text_enhanced job = lower (title job @ '' '' @ [])"

fun filter_public_health_jobs_enhanced :: "job list \<Rightarrow> job list \<times> job list" where
  "filter_public_health_jobs_enhanced [] = ([], [])"
| "filter_public_health_jobs_enhanced (job # jobs) =
     (let job_text = job_text_enhanced job;
          matches = keyword_matches enhanced_public_health_keywords job_text;
          score = (of_nat matches :: rat) / of_nat (length enhanced_public_health_keywords);
          job' = job\<lparr>relevance_score := Some (py_round2 score),
                      is_public_health := Some (3/10 \<le> score)\<rparr>;
          rest = filter_public_health_jobs_enhanced jobs
      in if 3/10 \<le> score then (job' # fst rest, job' # snd rest)
         else (fst rest, job' # snd rest))"

text \<open>
  The quotient \<open>matches / len(keywords)\<close> of a text, and the two entries a scorer writes
  into a posting, named for the statements below.
\<close>

definition raw_score :: "string list \<Rightarrow> string \<Rightarrow> rat" where
  "raw_score keywords job_text =
     of_nat (keyword_matches keywords job_text) / of_nat (length keywords)"

definition scored :: "rat \<Rightarrow> rat \<Rightarrow> job \<Rightarrow> job" where
  "scored threshold score job =
     job\<lparr>relevance_score := Some (py_round2 score), is_public_health := Some (threshold \<le> score)\<rparr>"

definition simple_score :: "job \<Rightarrow> rat" where
  "simple_score job = raw_score public_health_keywords (job_text_simple job)"

definition enhanced_score :: "job \<Rightarrow> rat" where
  "enhanced_score job = raw_score enhanced_public_health_keywords (job_text_enhanced job)"

section \<open>Deduplication\<close>

text \<open>The loop that closes \<open>main\<close> (fn.py) and \<open>run_scraper_with_progress\<close> (JOB.py, branch.py).\<close>

fun dedup_loop :: "job list \<Rightarrow> string option set \<Rightarrow> job list \<Rightarrow> job list" where
  "dedup_loop [] seen_urls unique_jobs = unique_jobs"
| "dedup_loop (job # all_jobs) seen_urls unique_jobs =
     (if url job \<notin> seen_urls
      then dedup_loop all_jobs (insert (url job) seen_urls) (unique_jobs @ [job])
      else dedup_loop all_jobs seen_urls unique_jobs)"

definition remove_duplicates :: "job list \<Rightarrow> job list" where
  "remove_duplicates all_jobs = dedup_loop all_jobs {} []"

section \<open>The network as the HTTP scraper sees it\<close>

text \<open>
  \<open>requests\<close> and \<open>BeautifulSoup\<close> are libraries; the model takes what they return. A
  response carries its status, what \<open>response.json()\<close> gives (\<open>None\<close> when decoding raises)
  and the document \<open>BeautifulSoup(response.content, 'html.parser')\<close> builds, the latter as
  the answers to the three \<open>find_all\<close> queries the scrapers put to it.

  The items of the decoded payload have the shape the ReliefWeb scraper reads,
  \<open>{id, fields: {title, source: [{name}], country: [{name}], date: {created}}}\<close>, every
  key optional; \<open>item_id\<close> is the text that formatting the id gives.
\<close>

record rw_named =
  named_name :: "string option"

record rw_date =
  date_created :: "string option"

record rw_fields =
  fields_title :: "string option"
  fields_source :: "rw_named list option"
  fields_country :: "rw_named list option"
  fields_date :: "rw_date option"

record rw_item =
  item_id :: "string option"
  item_fields :: "rw_fields option"

text \<open>
  What stands under the key \<open>data\<close>, by what \<open>[:max_jobs]\<close> does with it: a list is cut, a
  string is cut too (and the loop then runs over its characters), and anything else, a
  \<open>null\<close>, a number, a boolean or an object, cannot be sliced.
\<close>

datatype data_value =
    DataList "rw_item list"
  | DataText string
  | DataUnsliceable

record rw_payload =
  payload_data :: "data_value option"

text \<open>
  What \<open>response.json()\<close> returns: an object, which has \<open>get\<close>, or another JSON value (a
  list, a string, a number, a boolean, \<open>null\<close>), which has not.
\<close>

datatype decoded =
    JsonObject rw_payload
  | JsonOther

text \<open>An \<open>a\<close> element: its text as \<open>get_text(strip=True)\<close> gives it, and its \<open>href\<close>.\<close>

record anchor =
  anchor_text :: string
  anchor_href :: "string option"

text \<open>
  An \<open>article.rw-river-article--job\<close>: the \<open>a\<close> inside its first \<open>h3\<close> (\<open>None\<close> without an
  \<open>h3\<close> or without an \<open>a\<close> in it), and the texts of its first \<open>dd\<close>, of its first
  \<open>span.rw-river-article__country\<close> and of its first \<open>time\<close>.
\<close>

record rw_article =
  article_title_link :: "anchor option"
  article_dd :: "string option"
  article_country :: "string option"
  article_time :: "string option"

text \<open>
  An element of the Devex page: the text of \<open>find('h3') or find('h2')\<close>, its first \<open>a\<close>.
\<close>

record devex_element =
  element_heading :: "string option"
  element_link :: "anchor option"

record soup =
  rw_job_articles :: "rw_article list"
  job_divs :: "devex_element list"
  all_articles :: "devex_element list"

record response =
  status_code :: nat
  json_body :: "decoded option"
  html :: soup

text \<open>
  The environment of a run: \<open>session_get url\<close> is what \<open>session.get(url, timeout=10)\<close>
  does, an exception (\<open>Inl\<close>) or a response; \<open>re_search pattern s\<close> is \<open>group(1)\<close> of
  \<open>re.search(pattern, s)\<close>, \<open>None\<close> without a match; \<open>clock\<close> is the reading of the clock.
\<close>

record env =
  session_get :: "string \<Rightarrow> error + response"
  re_search :: "string \<Rightarrow> string \<Rightarrow> string option"
  clock :: datetime

section \<open>SimpleJobScraper (fn.py)\<close>

text \<open>
  The loop \<open>for x in xs: try: ... jobs.append(job_data) except Exception: continue\<close>. The
  body gives \<open>Inl\<close> where it raises, \<open>Inr None\<close> where it leaves by \<open>continue\<close> and
  \<open>Inr (Some job_data)\<close> where it appends.
\<close>

fun for_each_try :: "('a \<Rightarrow> error + job option) \<Rightarrow> 'a list \<Rightarrow> job list" where
  "for_each_try body [] = []"
| "for_each_try body (x # xs) =
     (case body x of
        Inl e \<Rightarrow> for_each_try body xs
      | Inr None \<Rightarrow> for_each_try body xs
      | Inr (Some job_data) \<Rightarrow> job_data # for_each_try body xs)"

definition reliefweb_api_url :: "string \<Rightarrow> nat \<Rightarrow> string" where
  "reliefweb_api_url term max_jobs =
     ''https://api.reliefweb.int/v1/jobs?appname=publichealth&query[value]='' @
     replace_spaces ''+'' term @ ''&limit='' @ str_nat max_jobs"

definition reliefweb_html_url :: "string \<Rightarrow> string" where
  "reliefweb_html_url term =
     ''https://reliefweb.int/jobs?search='' @ replace_spaces ''+'' term"

definition devex_url :: "string \<Rightarrow> string" where
  "devex_url term =
     ''https://www.devex.com/jobs/search?filter[keywords]='' @ replace_spaces ''%20'' term"

text \<open>The body of the inner \<open>try\<close> of \<open>scrape_reliefweb\<close>; \<open>item['id']\<close> raises without the key.\<close>

definition reliefweb_api_job :: "datetime \<Rightarrow> string \<Rightarrow> rw_item \<Rightarrow> error + job option" where
  "reliefweb_api_job now term item =
     (let fields = (case item_fields item of
                      None \<Rightarrow> \<lparr>fields_title = None, fields_source = None,
                                 fields_country = None, fields_date = None\<rparr>
                    | Some f \<Rightarrow> f);
          title' = (case fields_title fields of None \<Rightarrow> ''No title'' | Some t \<Rightarrow> t);
          organization' =
            (case fields_source fields of
               None \<Rightarrow> ''Unknown Organization''
             | Some [] \<Rightarrow> ''Unknown Organization''
             | Some (s # ss) \<Rightarrow>
                 (case named_name s of None \<Rightarrow> ''Unknown Organization'' | Some n \<Rightarrow> n));
          names = map (\<lambda>loc. case named_name loc of None \<Rightarrow> [] | Some n \<Rightarrow> n)
                    (case fields_country fields of None \<Rightarrow> [] | Some cs \<Rightarrow> cs);
          joined = (case names of [] \<Rightarrow> [] | n # ns \<Rightarrow> n @ concat (map (\<lambda>m. '', '' @ m) ns));
          location' = (if joined = [] then ''Multiple Locations'' else joined)
      in case item_id item of
           None \<Rightarrow> Inl (KeyError ''id'')
         | Some i \<Rightarrow>
             (let date_posted' =
                    (case fields_date fields of
                       None \<Rightarrow> ''Unknown''
                     | Some d \<Rightarrow> (case date_created d of None \<Rightarrow> ''Unknown'' | Some c \<Rightarrow> c))
              in Inr (Some
                   \<lparr>title = title',
                    organization = organization',
                    location = location',
                    url = Some (''https://reliefweb.int/job/'' @ i),
                    date_posted = date_posted',
                    source = ''reliefweb'',
                    scraped_at = isoformat now,
                    search_term = Some term,
                    is_recent = Some (is_recent_job now (Some date_posted')),
                    relevance_score = None,
                    is_public_health = None\<rparr>)))"

text \<open>The body of the loop of \<open>scrape_reliefweb_html\<close>.\<close>

definition reliefweb_html_job :: "datetime \<Rightarrow> string \<Rightarrow> rw_article \<Rightarrow> error + job option" where
  "reliefweb_html_job now term job_element =
     (case article_title_link job_element of
        None \<Rightarrow> Inr None
      | Some title_elem \<Rightarrow>
          (let date_posted' = (case article_time job_element of None \<Rightarrow> ''Unknown'' | Some d \<Rightarrow> d)
           in Inr (Some
                \<lparr>title = anchor_text title_elem,
                 organization = (case article_dd job_element of
                                   None \<Rightarrow> ''Unknown Organization'' | Some t \<Rightarrow> t),
                 location = (case article_country job_element of
                               None \<Rightarrow> ''Multiple Locations'' | Some t \<Rightarrow> t),
                 url = Some (''https://reliefweb.int'' @
                             (case anchor_href title_elem of None \<Rightarrow> [] | Some h \<Rightarrow> h)),
                 date_posted = date_posted',
                 source = ''reliefweb'',
                 scraped_at = isoformat now,
                 search_term = Some term,
                 is_recent = Some (is_recent_job now (Some date_posted')),
                 relevance_score = None,
                 is_public_health = None\<rparr>)))"

text \<open>
  \<open>scrape_reliefweb_html\<close>: whatever the \<open>try\<close> raises, the handler returns the empty list.
  The response's status is not looked at.
\<close>

definition scrape_reliefweb_html :: "env \<Rightarrow> string \<Rightarrow> nat \<Rightarrow> job list \<times> event list" where
  "scrape_reliefweb_html e term max_jobs =
     (let url' = reliefweb_html_url term
      in case session_get e url' of
           Inl err \<Rightarrow> ([], [HttpGet url'])
         | Inr response \<Rightarrow>
             (let job_elements = take max_jobs (rw_job_articles (html response))
              in (for_each_try (reliefweb_html_job (clock e) term) job_elements,
                  [HttpGet url', HtmlParse])))"

text \<open>
  The outer \<open>try\<close> of \<open>scrape_reliefweb\<close>: the request, \<open>raise_for_status()\<close> (an error for a
  status from 400 to 599), the decoding, \<open>data.get('data', [])[:max_jobs]\<close> and the loop.
  \<open>data.get\<close> raises when the body is not an object, and the slice raises when \<open>data\<close> cannot
  be sliced. The characters of a string have no \<open>get\<close>: each raises inside the inner \<open>try\<close>
  and is passed over.
\<close>

definition reliefweb_api_try :: "env \<Rightarrow> string \<Rightarrow> nat \<Rightarrow> (error + job list) \<times> event list" where
  "reliefweb_api_try e term max_jobs =
     (let url' = reliefweb_api_url term max_jobs
      in case session_get e url' of
           Inl err \<Rightarrow> (Inl err, [HttpGet url'])
         | Inr response \<Rightarrow>
             if 400 \<le> status_code response \<and> status_code response < 600
             then (Inl (HTTPError (status_code response)), [HttpGet url'])
             else (case json_body response of
                     None \<Rightarrow> (Inl JSONDecodeError, [HttpGet url', JsonDecode])
                   | Some JsonOther \<Rightarrow> (Inl AttributeError, [HttpGet url', JsonDecode])
                   | Some (JsonObject data) \<Rightarrow>
                       (case payload_data data of
                          None \<Rightarrow>
                            (Inr (for_each_try (reliefweb_api_job (clock e) term) (take max_jobs [])),
                             [HttpGet url', JsonDecode])
                        | Some DataUnsliceable \<Rightarrow> (Inl TypeError, [HttpGet url', JsonDecode])
                        | Some (DataText s) \<Rightarrow>
                            (Inr (for_each_try (\<lambda>item. Inl AttributeError) (take max_jobs s)),
                             [HttpGet url', JsonDecode])
                        | Some (DataList xs) \<Rightarrow>
                            (Inr (for_each_try (reliefweb_api_job (clock e) term) (take max_jobs xs)),
                             [HttpGet url', JsonDecode]))))"

text \<open>\<open>scrape_reliefweb\<close>: the handler of the outer \<open>try\<close> calls the HTML scraper.\<close>

definition scrape_reliefweb :: "env \<Rightarrow> string \<Rightarrow> nat \<Rightarrow> job list \<times> event list" where
  "scrape_reliefweb e term max_jobs =
     (case reliefweb_api_try e term max_jobs of
        (Inr jobs, events) \<Rightarrow> (jobs, events)
      | (Inl err, events) \<Rightarrow>
          (let fallback = scrape_reliefweb_html e term max_jobs
           in (fst fallback, events @ snd fallback)))"

text \<open>
  The two patterns \<open>scrape_devex\<close> searches the title with, in its order: \<open>at\<close>, white
  space, then a capital and letters, spaces or ampersands; and a dash, optional white
  space, then the same up to the end of the title. \<open>bs\<close> is the backslash.
\<close>

definition bs :: char where
  "bs = CHR 0x5C"

definition org_patterns :: "string list" where
  "org_patterns =
     [''at'' @ [bs] @ ''s+([A-Z][a-zA-Z'' @ [bs] @ ''s&]+)'',
      ''-'' @ [bs] @ ''s*([A-Z][a-zA-Z'' @ [bs] @ ''s&]+)$'']"

text \<open>The loop over the patterns: the first that matches gives the organization.\<close>

fun first_match :: "(string \<Rightarrow> string \<Rightarrow> string option) \<Rightarrow> string list \<Rightarrow> string \<Rightarrow> string \<Rightarrow> string" where
  "first_match search [] title' organization' = organization'"
| "first_match search (pattern # patterns) title' organization' =
     (case search pattern title' of
        Some group1 \<Rightarrow> strip group1
      | None \<Rightarrow> first_match search patterns title' organization')"

text \<open>The body of the loop of \<open>scrape_devex\<close>.\<close>

definition devex_job :: "env \<Rightarrow> string \<Rightarrow> devex_element \<Rightarrow> error + job option" where
  "devex_job e term job_element =
     (case element_heading job_element of
        None \<Rightarrow> Inr None
      | Some title' \<Rightarrow>
          (let url0 = (case element_link job_element of
                         None \<Rightarrow> []
                       | Some link_elem \<Rightarrow>
                           (case anchor_href link_elem of None \<Rightarrow> [] | Some h \<Rightarrow> h));
               url' = (if url0 \<noteq> [] \<and> \<not> startswith url0 ''http''
                       then ''https://www.devex.com'' @ url0 else url0)
           in Inr (Some
                \<lparr>title = title',
                 organization = first_match (re_search e) org_patterns title'
                                  ''Development Organization'',
                 location = ''Global'',
                 url = Some url',
                 date_posted = ''Recent'',
                 source = ''devex'',
                 scraped_at = isoformat (clock e),
                 search_term = Some term,
                 is_recent = Some True,
                 relevance_score = None,
                 is_public_health = None\<rparr>)))"

text \<open>\<open>scrape_devex\<close>: one request, parsed as HTML; the handler returns the empty list.\<close>

definition scrape_devex :: "env \<Rightarrow> string \<Rightarrow> nat \<Rightarrow> job list \<times> event list" where
  "scrape_devex e term max_jobs =
     (let url' = devex_url term
      in case session_get e url' of
           Inl err \<Rightarrow> ([], [HttpGet url'])
         | Inr response \<Rightarrow>
             (let job_elements0 = take max_jobs (job_divs (html response));
                  job_elements = (if job_elements0 = []
                                  then take max_jobs (all_articles (html response))
                                  else job_elements0)
              in (for_each_try (devex_job e term) job_elements, [HttpGet url', HtmlParse])))"

text \<open>
  \<open>scrape_development_sites\<close>: the scrapers are called with their default \<open>max_jobs\<close>, 20
  for ReliefWeb and 15 for Devex; a site of another name is passed over. No call in the
  body raises, so its handler is never entered.
\<close>

fun scrape_sites_loop :: "env \<Rightarrow> string \<Rightarrow> string list \<Rightarrow> job list \<times> event list" where
  "scrape_sites_loop e term [] = ([], [])"
| "scrape_sites_loop e term (site # sites) =
     (let rest = scrape_sites_loop e term sites
      in if site = ''reliefweb''
         then (let r = scrape_reliefweb e term 20 in (fst r @ fst rest, snd r @ snd rest))
         else if site = ''devex''
         then (let r = scrape_devex e term 15 in (fst r @ fst rest, snd r @ snd rest))
         else rest)"

definition scrape_development_sites :: "env \<Rightarrow> string \<Rightarrow> string list option \<Rightarrow> job list \<times> event list" where
  "scrape_development_sites e term sites =
     scrape_sites_loop e term (case sites of None \<Rightarrow> [''reliefweb'', ''devex''] | Some s \<Rightarrow> s)"

text \<open>
  What the sidebar of \<open>main\<close> collects. \<open>max_jobs_per_search\<close> is read from the slider
  ``Max jobs per search term'' (5 to 30).
\<close>

record config =
  search_terms :: "string list"
  config_sites :: "string list"
  max_jobs_per_search :: nat
  show_only_recent :: bool

text \<open>The loop of \<open>main\<close> over the search terms: scrape, filter, extend \<open>all_jobs\<close>.\<close>

fun search_loop :: "env \<Rightarrow> string list \<Rightarrow> string list \<Rightarrow> job list \<times> event list" where
  "search_loop e sites [] = ([], [])"
| "search_loop e sites (term # terms) =
     (let scraped = scrape_development_sites e term (Some sites);
          filtered_jobs = fst (filter_public_health_jobs (fst scraped));
          rest = search_loop e sites terms
      in (filtered_jobs @ fst rest, snd scraped @ snd rest))"

text \<open>
  \<open>main\<close> once the button is pressed: \<open>Inl\<close> is the message of \<open>st.error\<close> when nothing is
  selected; otherwise the postings passed to \<open>display_results\<close>, and the events of the run.
\<close>

definition main_run :: "env \<Rightarrow> config \<Rightarrow> string + (job list \<times> event list)" where
  "main_run e cfg =
     (if search_terms cfg = [] then Inl ''Please select at least one search term.''
      else if config_sites cfg = [] then Inl ''Please select at least one website to scrape.''
      else (let r = search_loop e (config_sites cfg) (search_terms cfg)
            in Inr (remove_duplicates (fst r), snd r)))"


section \<open>EnhancedJobScraper (branch.py) and its caller (JOB.py)\<close>

text \<open>
  Selenium is a library; the model takes what the driver returns. \<open>driver_get url\<close> is an
  exception or the page the browser then shows, given as the answers to the scraper's
  queries: whether an \<open>article\<close> appears within the ten seconds \<open>WebDriverWait\<close> allows, the
  elements \<open>article.rw-river-article--job\<close> and the elements \<open>div.job, .job-item\<close>. In an
  element a field is \<open>None\<close> where \<open>find_element\<close> raises \<open>NoSuchElementException\<close>; texts
  are as \<open>.text\<close> gives them, before \<open>strip()\<close>. \<open>page_status\<close> is the status the server sent
  the page with; the driver shows the page whatever the status is and gives the scraper
  no way to read it.
\<close>

record rw_web_element =
  we_title_link :: "anchor option"
  we_dd :: "string option"
  we_country :: "string option"
  we_time :: "string option"

record unjobs_web_element =
  uj_heading :: "string option"
  uj_link :: "anchor option"
  uj_org :: "string option"
  uj_location :: "string option"

record browser_page =
  page_status :: nat
  article_present :: bool
  rw_elements :: "rw_web_element list"
  unjobs_elements :: "unjobs_web_element list"

record browser_env =
  driver_get :: "string \<Rightarrow> error + browser_page"
  browser_clock :: datetime

definition unjobs_url :: "string \<Rightarrow> string" where
  "unjobs_url term = ''https://unjobs.org/search/'' @ replace_spaces ''%20'' term"

text \<open>
  \<open>extract_reliefweb_job_data\<close>: \<open>None\<close> when the title link is not found (the outer
  handler); the other three lookups have handlers of their own.
\<close>

definition extract_reliefweb_job_data :: "datetime \<Rightarrow> rw_web_element \<Rightarrow> job option" where
  "extract_reliefweb_job_data now job_element =
     (case we_title_link job_element of
        None \<Rightarrow> None
      | Some title_element \<Rightarrow>
          Some \<lparr>title = strip (anchor_text title_element),
                organization = (case we_dd job_element of
                                  None \<Rightarrow> ''Unknown Organization'' | Some t \<Rightarrow> strip t),
                location = (case we_country job_element of
                              None \<Rightarrow> ''Multiple Locations'' | Some t \<Rightarrow> strip t),
                url = anchor_href title_element,
                date_posted = (case we_time job_element of
                                 None \<Rightarrow> ''Unknown'' | Some t \<Rightarrow> strip t),
                source = ''reliefweb'',
                scraped_at = isoformat now,
                search_term = None,
                is_recent = None,
                relevance_score = None,
                is_public_health = None\<rparr>)"

text \<open>\<open>extract_unjobs_job_data\<close>: \<open>None\<close> when the heading or the link is not found.\<close>

definition extract_unjobs_job_data :: "datetime \<Rightarrow> unjobs_web_element \<Rightarrow> job option" where
  "extract_unjobs_job_data now job_element =
     (case uj_heading job_element of
        None \<Rightarrow> None
      | Some heading \<Rightarrow>
          (case uj_link job_element of
             None \<Rightarrow> None
           | Some link_element \<Rightarrow>
               Some \<lparr>title = strip heading,
                     organization = (case uj_org job_element of
                                       None \<Rightarrow> ''UN Agency'' | Some t \<Rightarrow> strip t),
                     location = (case uj_location job_element of
                                   None \<Rightarrow> ''Multiple Duty Stations'' | Some t \<Rightarrow> strip t),
                     url = anchor_href link_element,
                     date_posted = ''Recent'',
                     source = ''unjobs'',
                     scraped_at = isoformat now,
                     search_term = None,
                     is_recent = None,
                     relevance_score = None,
                     is_public_health = None\<rparr>))"

text \<open>
  The body of the loop that \<open>scrape_reliefweb\<close> and \<open>scrape_unjobs\<close> share, given the
  extracted dictionary: the search term and the recency are added.
\<close>

definition tag_extracted :: "datetime \<Rightarrow> string \<Rightarrow> job option \<Rightarrow> error + job option" where
  "tag_extracted now term extracted =
     (case extracted of
        None \<Rightarrow> Inr None
      | Some job_data \<Rightarrow>
          Inr (Some (job_data\<lparr>search_term := Some term,
                              is_recent := Some (is_recent_job now (Some (date_posted job_data)))\<rparr>)))"

definition scrape_reliefweb_enhanced :: "browser_env \<Rightarrow> string \<Rightarrow> nat \<Rightarrow> job list \<times> event list" where
  "scrape_reliefweb_enhanced b term max_jobs =
     (let url' = reliefweb_html_url term
      in case driver_get b url' of
           Inl err \<Rightarrow> ([], [BrowserGet url'])
         | Inr page \<Rightarrow>
             if \<not> article_present page then ([], [BrowserGet url'])
             else (let job_elements = take max_jobs (rw_elements page)
                   in (for_each_try
                         (\<lambda>el. tag_extracted (browser_clock b) term
                                  (extract_reliefweb_job_data (browser_clock b) el))
                         job_elements,
                       [BrowserGet url'])))"

definition scrape_unjobs :: "browser_env \<Rightarrow> string \<Rightarrow> nat \<Rightarrow> job list \<times> event list" where
  "scrape_unjobs b term max_jobs =
     (let url' = unjobs_url term
      in case driver_get b url' of
           Inl err \<Rightarrow> ([], [BrowserGet url'])
         | Inr page \<Rightarrow>
             (let job_elements = take max_jobs (unjobs_elements page)
              in (for_each_try
                    (\<lambda>el. tag_extracted (browser_clock b) term
                             (extract_unjobs_job_data (browser_clock b) el))
                    job_elements,
                  [BrowserGet url'])))"

fun scrape_sites_loop_enhanced :: "browser_env \<Rightarrow> string \<Rightarrow> string list \<Rightarrow> job list \<times> event list" where
  "scrape_sites_loop_enhanced b term [] = ([], [])"
| "scrape_sites_loop_enhanced b term (site # sites) =
     (let rest = scrape_sites_loop_enhanced b term sites
      in if site = ''reliefweb''
         then (let r = scrape_reliefweb_enhanced b term 20 in (fst r @ fst rest, snd r @ snd rest))
         else if site = ''unjobs''
         then (let r = scrape_unjobs b term 15 in (fst r @ fst rest, snd r @ snd rest))
         else rest)"

definition scrape_development_sites_enhanced :: "browser_env \<Rightarrow> string \<Rightarrow> string list option \<Rightarrow> job list \<times> event list" where
  "scrape_development_sites_enhanced b term sites =
     scrape_sites_loop_enhanced b term
       (case sites of None \<Rightarrow> [''reliefweb'', ''unjobs''] | Some s \<Rightarrow> s)"

fun search_loop_enhanced :: "browser_env \<Rightarrow> string list \<Rightarrow> string list \<Rightarrow> job list \<times> event list" where
  "search_loop_enhanced b sites [] = ([], [])"
| "search_loop_enhanced b sites (term # terms) =
     (let scraped = scrape_development_sites_enhanced b term (Some sites);
          filtered_jobs = fst (filter_public_health_jobs_enhanced (fst scraped));
          rest = search_loop_enhanced b sites terms
      in (filtered_jobs @ fst rest, snd scraped @ snd rest))"

text \<open>
  \<open>run_scraper_with_progress\<close>: with nothing selected it returns the empty list after
  \<open>st.error\<close>. Otherwise it first calls \<open>EnhancedJobScraper(headless=True)\<close>, whose
  \<open>setup_driver\<close> starts the browser; \<open>start\<close> is what that call does, an exception or the
  scraper with its browser. No \<open>try\<close> stands around the call: its exception leaves
  \<open>run_scraper_with_progress\<close> (\<open>Inl\<close>).
\<close>

definition run_scraper_with_progress :: "error + browser_env \<Rightarrow> config \<Rightarrow> error + (job list \<times> event list)" where
  "run_scraper_with_progress start cfg =
     (if search_terms cfg = [] then Inr ([], [])
      else if config_sites cfg = [] then Inr ([], [])
      else (case start of
              Inl err \<Rightarrow> Inl err
            | Inr b \<Rightarrow>
                (let r = search_loop_enhanced b (config_sites cfg) (search_terms cfg)
                 in Inr (remove_duplicates (fst r), snd r))))"

section \<open>Failing fetches\<close>

text \<open>
  What one pair of a search term and a site contributes to a run of \<open>SimpleJobScraper\<close>,
  and the first address the pair requests.
\<close>

definition pair_jobs :: "env \<Rightarrow> string \<Rightarrow> string \<Rightarrow> job list" where
  "pair_jobs e term site = fst (scrape_development_sites e term (Some [site]))"

definition first_address :: "string \<Rightarrow> string \<Rightarrow> string" where
  "first_address site term =
     (if site = ''reliefweb'' then reliefweb_api_url term 20 else devex_url term)"

text \<open>
  The API path fails when its outer \<open>try\<close> raises: the request raises, the status is from
  400 to 599, the decoding raises, the body is not an object, or its \<open>data\<close> cannot be
  sliced. An HTML fetch fails when the request raises or the page gives the selectors
  nothing to match. The ReliefWeb pair fails when both its paths do.
\<close>

definition api_fails :: "env \<Rightarrow> string \<Rightarrow> nat \<Rightarrow> bool" where
  "api_fails e term max_jobs =
     (case session_get e (reliefweb_api_url term max_jobs) of
        Inl err \<Rightarrow> True
      | Inr response \<Rightarrow>
          (400 \<le> status_code response \<and> status_code response < 600) \<or>
          (case json_body response of
             None \<Rightarrow> True
           | Some JsonOther \<Rightarrow> True
           | Some (JsonObject data) \<Rightarrow> payload_data data = Some DataUnsliceable))"

definition html_fails :: "env \<Rightarrow> string \<Rightarrow> bool" where
  "html_fails e term =
     (case session_get e (reliefweb_html_url term) of
        Inl err \<Rightarrow> True
      | Inr response \<Rightarrow> rw_job_articles (html response) = [])"

definition devex_fails :: "env \<Rightarrow> string \<Rightarrow> bool" where
  "devex_fails e term =
     (case session_get e (devex_url term) of
        Inl err \<Rightarrow> True
      | Inr response \<Rightarrow> job_divs (html response) = [] \<and> all_articles (html response) = [])"

definition fetch_fails :: "env \<Rightarrow> string \<Rightarrow> string \<Rightarrow> bool" where
  "fetch_fails e term site =
     (if site = ''reliefweb'' then api_fails e term 20 \<and> html_fails e term
      else if site = ''devex'' then devex_fails e term
      else False)"

text \<open>
  The same for the browser scraper: a fetch fails when \<open>driver.get\<close> raises, when the wait
  for an \<open>article\<close> times out (ReliefWeb), or when the page has none of the elements.
\<close>

definition pair_jobs_enhanced :: "browser_env \<Rightarrow> string \<Rightarrow> string \<Rightarrow> job list" where
  "pair_jobs_enhanced b term site = fst (scrape_development_sites_enhanced b term (Some [site]))"

definition first_address_enhanced :: "string \<Rightarrow> string \<Rightarrow> string" where
  "first_address_enhanced site term =
     (if site = ''reliefweb'' then reliefweb_html_url term else unjobs_url term)"

definition fetch_fails_enhanced :: "browser_env \<Rightarrow> string \<Rightarrow> string \<Rightarrow> bool" where
  "fetch_fails_enhanced b term site =
     (if site = ''reliefweb''
      then (case driver_get b (reliefweb_html_url term) of
              Inl err \<Rightarrow> True
            | Inr page \<Rightarrow> \<not> article_present page \<or> rw_elements page = [])
      else if site = ''unjobs''
      then (case driver_get b (unjobs_url term) of
              Inl err \<Rightarrow> True
            | Inr page \<Rightarrow> unjobs_elements page = [])
      else False)"

section \<open>Example inputs\<close>

definition noon_5_jan_2025 :: datetime where
  "noon_5_jan_2025 =
     \<lparr>year = 2025, month = 1, day = 5, hour = 12, minute = 0, second = 0, microsecond = 0\<rparr>"

definition example_posting :: job where
  "example_posting =
     \<lparr>title = ''Public Health Monitoring and Evaluation Data Officer'',
      organization = ''Unknown Organization'',
      location = ''Multiple Locations'',
      url = Some ''https://reliefweb.int/job/1'',
      date_posted = ''Unknown'',
      source = ''reliefweb'',
      scraped_at = ''2025-01-05T12:00:00'',
      search_term = Some ''monitoring and evaluation'',
      is_recent = Some False,
      relevance_score = Some (26 / 100),
      is_public_health = Some True\<rparr>"

text \<open>
  The same posting found again under another search term, and a posting of another url.
\<close>

definition example_duplicates :: "job list" where
  "example_duplicates =
     [example_posting,
      example_posting\<lparr>search_term := Some ''public health data''\<rparr>,
      example_posting\<lparr>url := Some ''https://reliefweb.int/job/2''\<rparr>]"

text \<open>A browser that shows one UNjobs element for every address.\<close>

definition example_browser :: browser_env where
  "example_browser =
     \<lparr>driver_get = (\<lambda>address. Inr
        \<lparr>page_status = 200,
         article_present = True,
         rw_elements = [],
         unjobs_elements =
           [\<lparr>uj_heading = Some ''M&E Officer '',
             uj_link = Some \<lparr>anchor_text = ''M&E Officer'',
                              anchor_href = Some ''https://unjobs.org/vacancies/1''\<rparr>,
             uj_org = None,
             uj_location = None\<rparr>]\<rparr>),
      browser_clock = noon_5_jan_2025\<rparr>"

definition example_unjobs_posting :: job where
  "example_unjobs_posting =
     \<lparr>title = ''M&E Officer'',
      organization = ''UN Agency'',
      location = ''Multiple Duty Stations'',
      url = Some ''https://unjobs.org/vacancies/1'',
      date_posted = ''Recent'',
      source = ''unjobs'',
      scraped_at = ''2025-01-05T12:00:00'',
      search_term = Some ''M&E officer'',
      is_recent = Some False,
      relevance_score = None,
      is_public_health = None\<rparr>"

text \<open>
  A network on which the ReliefWeb API answers the search for \<open>monitoring and evaluation\<close>
  with the given items and every other request times out.
\<close>

definition api_only_env :: "rw_item list \<Rightarrow> env" where
  "api_only_env items =
     \<lparr>session_get = (\<lambda>address.
        if address = reliefweb_api_url ''monitoring and evaluation'' 20
        then Inr \<lparr>status_code = 200,
                  json_body = Some (JsonObject \<lparr>payload_data = Some (DataList items)\<rparr>),
                  html = \<lparr>rw_job_articles = [], job_divs = [], all_articles = []\<rparr>\<rparr>
        else Inl Timeout),
      re_search = (\<lambda>pattern s. None),
      clock = noon_5_jan_2025\<rparr>"

definition titled_item :: "string \<Rightarrow> string \<Rightarrow> rw_item" where
  "titled_item ident t =
     \<lparr>item_id = Some ident,
      item_fields = Some \<lparr>fields_title = Some t, fields_source = None,
                           fields_country = None, fields_date = None\<rparr>\<rparr>"

definition six_items :: "rw_item list" where
  "six_items =
     map (\<lambda>ident. titled_item ident ''HIV and TB M&E Data Survey Officer'')
       [''1'', ''2'', ''3'', ''4'', ''5'', ''6'']"

definition reliefweb_config :: config where
  "reliefweb_config =
     \<lparr>search_terms = [''monitoring and evaluation''],
      config_sites = [''reliefweb''],
      max_jobs_per_search = 5,
      show_only_recent = False\<rparr>"

definition health_officer :: job where
  "health_officer =
     \<lparr>title = ''Health Officer'',
      organization = ''Unknown Organization'',
      location = ''Multiple Locations'',
      url = Some ''https://reliefweb.int/job/7'',
      date_posted = ''Unknown'',
      source = ''reliefweb'',
      scraped_at = ''2025-01-05T12:00:00'',
      search_term = Some ''monitoring and evaluation'',
      is_recent = Some False,
      relevance_score = None,
      is_public_health = None\<rparr>"

text \<open>The posting the ReliefWeb scraper and the scorer make of \<open>titled_item ''1''\<close>.\<close>

definition hit_posting :: job where
  "hit_posting =
     \<lparr>title = ''HIV and TB M&E Data Survey Officer'',
      organization = ''Unknown Organization'',
      location = ''Multiple Locations'',
      url = Some ''https://reliefweb.int/job/1'',
      date_posted = ''Unknown'',
      source = ''reliefweb'',
      scraped_at = ''2025-01-05T12:00:00'',
      search_term = Some ''monitoring and evaluation'',
      is_recent = Some False,
      relevance_score = Some (22 / 100),
      is_public_health = Some True\<rparr>"

definition mixed_items :: "rw_item list" where
  "mixed_items =
     [titled_item ''1'' ''HIV and TB M&E Data Survey Officer'', titled_item ''8'' ''Driver'']"

definition api_events :: "event list" where
  "api_events = [HttpGet (reliefweb_api_url ''monitoring and evaluation'' 20), JsonDecode]"


text \<open>
  A network on which every request is answered with the given status and a page that
  holds one Devex job card.
\<close>

definition devex_page_env :: "nat \<Rightarrow> env" where
  "devex_page_env status =
     \<lparr>session_get = (\<lambda>address. Inr
        \<lparr>status_code = status,
         json_body = None,
         html = \<lparr>rw_job_articles = [],
                 job_divs = [\<lparr>element_heading = Some ''HIV and TB M&E Data Survey Officer'',
                              element_link = Some \<lparr>anchor_text = ''Apply'',
                                                   anchor_href = Some ''/jobs/1''\<rparr>\<rparr>],
                 all_articles = []\<rparr>\<rparr>),
      re_search = (\<lambda>pattern s. None),
      clock = noon_5_jan_2025\<rparr>"

definition devex_posting :: job where
  "devex_posting =
     \<lparr>title = ''HIV and TB M&E Data Survey Officer'',
      organization = ''Development Organization'',
      location = ''Global'',
      url = Some ''https://www.devex.com/jobs/1'',
      date_posted = ''Recent'',
      source = ''devex'',
      scraped_at = ''2025-01-05T12:00:00'',
      search_term = Some ''monitoring and evaluation'',
      is_recent = Some True,
      relevance_score = None,
      is_public_health = None\<rparr>"

text \<open>A network on which the ReliefWeb API answers \<open>{"data": null}\<close> with status 200.\<close>

definition null_data_env :: env where
  "null_data_env =
     \<lparr>session_get = (\<lambda>address.
        if address = reliefweb_api_url ''monitoring and evaluation'' 20
        then Inr \<lparr>status_code = 200,
                  json_body = Some (JsonObject \<lparr>payload_data = Some DataUnsliceable\<rparr>),
                  html = \<lparr>rw_job_articles = [], job_divs = [], all_articles = []\<rparr>\<rparr>
        else Inl Timeout),
      re_search = (\<lambda>pattern s. None),
      clock = noon_5_jan_2025\<rparr>"

text \<open>A run over every site either scraper knows.\<close>

definition all_sites_config :: config where
  "all_sites_config =
     \<lparr>search_terms = [''monitoring and evaluation''],
      config_sites = [''devex'', ''reliefweb'', ''unjobs''],
      max_jobs_per_search = 15,
      show_only_recent = False\<rparr>"

text \<open>An UNjobs element, and the posting the browser scraper and its scorer make of it.\<close>

definition unjobs_element :: unjobs_web_element where
  "unjobs_element =
     \<lparr>uj_heading = Some ''Public Health M&E Data Survey Officer'',
      uj_link = Some \<lparr>anchor_text = ''Public Health M&E Data Survey Officer'',
                       anchor_href = Some ''https://unjobs.org/vacancies/2''\<rparr>,
      uj_org = None,
      uj_location = None\<rparr>"

definition unjobs_hit :: job where
  "unjobs_hit =
     \<lparr>title = ''Public Health M&E Data Survey Officer'',
      organization = ''UN Agency'',
      location = ''Multiple Duty Stations'',
      url = Some ''https://unjobs.org/vacancies/2'',
      date_posted = ''Recent'',
      source = ''unjobs'',
      scraped_at = ''2025-01-05T12:00:00'',
      search_term = Some ''monitoring and evaluation'',
      is_recent = Some False,
      relevance_score = Some (31 / 100),
      is_public_health = Some True\<rparr>"

text \<open>
  A browser in which the UNjobs search shows that element and every other request raises.
\<close>

definition unjobs_only_browser :: browser_env where
  "unjobs_only_browser =
     \<lparr>driver_get = (\<lambda>address.
        if address = unjobs_url ''monitoring and evaluation''
        then Inr \<lparr>page_status = 200, article_present = False, rw_elements = [],
                  unjobs_elements = [unjobs_element]\<rparr>
        else Inl WebDriverException),
      browser_clock = noon_5_jan_2025\<rparr>"

text \<open>
  A browser to which the server answers every request with status 503 and a page that
  holds that element, and a run over UNjobs alone.
\<close>

definition error_page_browser :: browser_env where
  "error_page_browser =
     \<lparr>driver_get = (\<lambda>address. Inr
        \<lparr>page_status = 503, article_present = False, rw_elements = [],
         unjobs_elements = [unjobs_element]\<rparr>),
      browser_clock = noon_5_jan_2025\<rparr>"

definition unjobs_config :: config where
  "unjobs_config =
     \<lparr>search_terms = [''monitoring and evaluation''],
      config_sites = [''unjobs''],
      max_jobs_per_search = 15,
      show_only_recent = False\<rparr>"

section \<open>Text and dates\<close>

lemma startswith_set: "startswith s p \<Longrightarrow> set p \<subseteq> set s"
  by (induction s p rule: startswith.induct) auto

lemma str_in_set: "str_in needle s \<Longrightarrow> set needle \<subseteq> set s"
proof (induction s)
  case Nil
  then show ?case by simp
next
  case (Cons c cs)
  then show ?case
    using startswith_set [of "c # cs" needle] by auto
qed

lemma lower_char_not_upper: "\<not> isupper (lower_char c)"
  unfolding lower_char_def isupper_def Let_def
  by (auto simp: of_char_of)

lemma lower_not_upper: "c \<in> set (lower s) \<Longrightarrow> \<not> isupper c"
  by (auto simp: lower_def lower_char_not_upper)

lemma month_abbr_upper: "\<exists>c \<in> set (month_abbr m). isupper c"
proof -
  have "isupper (hd (month_abbr m))"
    by (simp add: month_abbr_def isupper_def)
  moreover have "hd (month_abbr m) \<in> set (month_abbr m)"
    by (simp add: month_abbr_def)
  ultimately show ?thesis by blast
qed

lemma strftime_upper: "\<exists>c \<in> set (strftime_d_b_Y t). isupper c"
  using month_abbr_upper [of "month t"] by (auto simp: strftime_d_b_Y_def)

text \<open>
  The two date indicators are compared as \<open>strftime\<close> prints them, month capital and all,
  with a text that has been lowered: they occur in none.
\<close>

lemma strftime_not_in_lower: "\<not> str_in (strftime_d_b_Y t) (lower s)"
proof
  assume "str_in (strftime_d_b_Y t) (lower s)"
  then have "set (strftime_d_b_Y t) \<subseteq> set (lower s)"
    by (rule str_in_set)
  moreover obtain c where "c \<in> set (strftime_d_b_Y t)" and "isupper c"
    using strftime_upper by blast
  ultimately show False
    using lower_not_upper by blast
qed

lemma is_recent_job_phrases:
  "is_recent_job now (Some text) =
     (text \<noteq> [] \<and>
      list_ex (\<lambda>indicator. str_in indicator (lower text))
        [''hours ago'', ''hour ago'', ''today'', ''just now'', ''1 day ago'', ''yesterday''])"
  by (simp add: is_recent_job_def recent_indicators_def strftime_not_in_lower Let_def)

lemma lower_recent: "lower ''Recent'' = ''recent''"
  by code_simp

lemma not_recent_Recent: "is_recent_job now (Some ''Recent'') = False"
  unfolding is_recent_job_phrases lower_recent by simp

section \<open>Recency classifier: the three sample inputs\<close>

text \<open>
  C8. At every reading of the clock the classifier answers true on \<open>2 hours ago\<close>, false
  on the empty string and on an absent text, and false on \<open>three weeks ago\<close>.
\<close>

theorem is_recent_job_samples:
  "is_recent_job now (Some ''2 hours ago'') = True \<and>
   is_recent_job now (Some []) = False \<and>
   is_recent_job now None = False \<and>
   is_recent_job now (Some ''three weeks ago'') = False"
proof -
  have l1: "lower ''2 hours ago'' = ''2 hours ago''" by code_simp
  have l2: "lower ''three weeks ago'' = ''three weeks ago''" by code_simp
  have a: "is_recent_job now (Some ''2 hours ago'') = True"
    unfolding is_recent_job_phrases l1 by simp
  have b: "is_recent_job now (Some []) = False"
    by (simp add: is_recent_job_def)
  have c: "is_recent_job now None = False"
    by (simp add: is_recent_job_def)
  have d: "is_recent_job now (Some ''three weeks ago'') = False"
    unfolding is_recent_job_phrases l2 by simp
  from a b c d show ?thesis by blast
qed

section \<open>Recency classifier: the date indicators\<close>

text \<open>
  C4. On 5 January 2025 the current date prints as \<open>05 Jan 2025\<close> and the previous one as
  \<open>04 Jan 2025\<close>; the classifier answers false on both texts, because it lowers the text
  and not the indicator.
\<close>

theorem is_recent_job_current_date:
  "strftime_d_b_Y noon_5_jan_2025 = ''05 Jan 2025'' \<and>
   strftime_d_b_Y (minus_one_day noon_5_jan_2025) = ''04 Jan 2025'' \<and>
   is_recent_job noon_5_jan_2025 (Some ''05 Jan 2025'') = False \<and>
   is_recent_job noon_5_jan_2025 (Some ''04 Jan 2025'') = False"
  by code_simp

section \<open>Deduplication\<close>

lemma dedup_loop_acc: "dedup_loop xs seen acc = acc @ dedup_loop xs seen []"
proof (induction xs arbitrary: seen acc)
  case Nil
  then show ?case by simp
next
  case (Cons x xs)
  show ?case
  proof (cases "url x \<in> seen")
    case True
    then show ?thesis using Cons.IH [of seen acc] by (simp add: dedup_loop.simps(2))
  next
    case False
    then show ?thesis
      using Cons.IH [of "insert (url x) seen" "acc @ [x]"]
            Cons.IH [of "insert (url x) seen" "[x]"] by (simp add: dedup_loop.simps(2))
  qed
qed

lemma dedup_loop_Cons:
  "dedup_loop (x # xs) seen [] =
     (if url x \<in> seen then dedup_loop xs seen []
      else x # dedup_loop xs (insert (url x) seen) [])"
  using dedup_loop_acc [of xs "insert (url x) seen" "[x]"] by (simp add: dedup_loop.simps(2))

declare dedup_loop.simps(2) [simp del]

lemma dedup_loop_set: "set (dedup_loop xs seen []) \<subseteq> set xs"
proof (induction xs arbitrary: seen)
  case Nil
  then show ?case by simp
next
  case (Cons x xs)
  show ?case
    unfolding dedup_loop_Cons using Cons.IH by auto
qed

lemma dedup_loop_urls: "url ` set (dedup_loop xs seen []) = url ` set xs - seen"
proof (induction xs arbitrary: seen)
  case Nil
  then show ?case by simp
next
  case (Cons x xs)
  show ?case
    unfolding dedup_loop_Cons using Cons.IH by auto
qed

lemma dedup_loop_distinct: "distinct (map url (dedup_loop xs seen []))"
proof (induction xs arbitrary: seen)
  case Nil
  then show ?case by simp
next
  case (Cons x xs)
  have "url x \<notin> url ` set (dedup_loop xs (insert (url x) seen) [])"
    unfolding dedup_loop_urls by simp
  then show ?case
    unfolding dedup_loop_Cons using Cons.IH by simp
qed

lemma dedup_loop_subseq: "subseq (dedup_loop xs seen []) xs"
proof (induction xs arbitrary: seen)
  case Nil
  then show ?case by simp
next
  case (Cons x xs)
  show ?case
    unfolding dedup_loop_Cons using Cons.IH by auto
qed

lemma dedup_loop_first:
  "job \<in> set (dedup_loop xs seen []) \<Longrightarrow> find (\<lambda>k. url k = url job) xs = Some job"
proof (induction xs arbitrary: seen)
  case Nil
  then show ?case by simp
next
  case (Cons x xs)
  show ?case
  proof (cases "url x \<in> seen")
    case True
    with Cons.prems have mem: "job \<in> set (dedup_loop xs seen [])"
      by (simp add: dedup_loop_Cons)
    then have "url job \<in> url ` set xs - seen"
      using dedup_loop_urls [of xs seen] by blast
    with True have "url x \<noteq> url job" by auto
    with Cons.IH [OF mem] show ?thesis by simp
  next
    case False
    with Cons.prems have "job = x \<or> job \<in> set (dedup_loop xs (insert (url x) seen) [])"
      by (simp add: dedup_loop_Cons)
    then show ?thesis
    proof
      assume "job = x"
      then show ?thesis by simp
    next
      assume mem: "job \<in> set (dedup_loop xs (insert (url x) seen) [])"
      then have "url job \<in> url ` set xs - insert (url x) seen"
        using dedup_loop_urls [of xs "insert (url x) seen"] by blast
      then have "url x \<noteq> url job" by auto
      with Cons.IH [OF mem] show ?thesis by simp
    qed
  qed
qed

lemma remove_duplicates_subset: "set (remove_duplicates xs) \<subseteq> set xs"
  unfolding remove_duplicates_def by (rule dedup_loop_set)

text \<open>
  C1. Whatever was accumulated, the deduplicated list has no url twice, keeps the order
  of the accumulated list, loses no url, and holds of each url the first posting that
  carries it, which search term the later ones came from playing no part.
\<close>

theorem remove_duplicates_first_occurrence:
  "distinct (map url (remove_duplicates all_jobs)) \<and>
   subseq (remove_duplicates all_jobs) all_jobs \<and>
   url ` set (remove_duplicates all_jobs) = url ` set all_jobs \<and>
   (\<forall>job \<in> set (remove_duplicates all_jobs).
      find (\<lambda>k. url k = url job) all_jobs = Some job)"
  unfolding remove_duplicates_def
  using dedup_loop_distinct [of all_jobs "{}"] dedup_loop_subseq [of all_jobs "{}"]
        dedup_loop_urls [of all_jobs "{}"] dedup_loop_first [of _ all_jobs "{}"]
  by auto

theorem remove_duplicates_first_occurrence_witness:
  "remove_duplicates example_duplicates =
     [example_posting, example_posting\<lparr>url := Some ''https://reliefweb.int/job/2''\<rparr>] \<and>
   example_posting \<in> set (remove_duplicates example_duplicates) \<and>
   find (\<lambda>k. url k = url example_posting) example_duplicates = Some example_posting \<and>
   distinct (map url (remove_duplicates example_duplicates))"
proof -
  have run: "remove_duplicates example_duplicates =
      [example_posting, example_posting\<lparr>url := Some ''https://reliefweb.int/job/2''\<rparr>]"
    by (simp add: remove_duplicates_def example_duplicates_def example_posting_def
          dedup_loop.simps(2))
  then have mem: "example_posting \<in> set (remove_duplicates example_duplicates)"
    by simp
  from remove_duplicates_first_occurrence [of example_duplicates] mem run
  show ?thesis by blast
qed

section \<open>The scraping loops\<close>

lemma for_each_try_mem:
  "job \<in> set (for_each_try body xs) \<Longrightarrow> \<exists>x \<in> set xs. body x = Inr (Some job)"
proof (induction xs)
  case Nil
  then show ?case by simp
next
  case (Cons x xs)
  then show ?case
    by (auto split: sum.splits option.splits)
qed

section \<open>UNjobs postings\<close>

text \<open>
  C10. Every posting \<open>scrape_unjobs\<close> returns, at every reading of the clock and for every
  page, has \<open>date_posted\<close> equal to \<open>Recent\<close> and \<open>is_recent\<close> equal to false.
\<close>

theorem unjobs_never_recent:
  "job \<in> set (fst (scrape_unjobs b term max_jobs)) \<Longrightarrow>
     date_posted job = ''Recent'' \<and> is_recent job = Some False"
proof -
  assume mem: "job \<in> set (fst (scrape_unjobs b term max_jobs))"
  have "\<exists>elements. job \<in> set (for_each_try
                  (\<lambda>el. tag_extracted (browser_clock b) term
                           (extract_unjobs_job_data (browser_clock b) el)) elements)"
  proof (cases "driver_get b (unjobs_url term)")
    case (Inl err)
    with mem show ?thesis by (simp add: scrape_unjobs_def)
  next
    case (Inr page)
    with mem show ?thesis by (auto simp: scrape_unjobs_def Let_def)
  qed
  then obtain el where
    body: "tag_extracted (browser_clock b) term
             (extract_unjobs_job_data (browser_clock b) el) = Inr (Some job)"
    using for_each_try_mem by blast
  then obtain job_data where
    ex: "extract_unjobs_job_data (browser_clock b) el = Some job_data" and
    job: "job = job_data\<lparr>search_term := Some term,
                 is_recent := Some (is_recent_job (browser_clock b) (Some (date_posted job_data)))\<rparr>"
    by (auto simp: tag_extracted_def split: option.splits)
  from ex have "date_posted job_data = ''Recent''"
    by (auto simp: extract_unjobs_job_data_def split: option.splits)
  with job show ?thesis
    by (simp add: not_recent_Recent)
qed

theorem unjobs_never_recent_witness:
  "example_unjobs_posting \<in> set (fst (scrape_unjobs example_browser ''M&E officer'' 15)) \<and>
   date_posted example_unjobs_posting = ''Recent'' \<and>
   is_recent example_unjobs_posting = Some False"
proof -
  have run: "fst (scrape_unjobs example_browser ''M&E officer'' 15) = [example_unjobs_posting]"
    by code_simp
  then have mem:
    "example_unjobs_posting \<in> set (fst (scrape_unjobs example_browser ''M&E officer'' 15))"
    by simp
  from unjobs_never_recent [OF mem] mem show ?thesis by blast
qed

section \<open>Rounding and scores\<close>

lemma round_half_even_of_int: "round_half_even (of_int k) = k"
  by (simp add: round_half_even_def)

lemma py_round2_idem: "py_round2 (py_round2 x) = py_round2 x"
  by (simp add: py_round2_def round_half_even_of_int)

lemma round_half_even_nonneg: "0 \<le> x \<Longrightarrow> 0 \<le> round_half_even x"
  by (auto simp: round_half_even_def Let_def)

lemma round_half_even_le: "x \<le> of_int n \<Longrightarrow> round_half_even x \<le> n"
proof -
  assume le: "x \<le> of_int n"
  then have fl: "\<lfloor>x\<rfloor> \<le> n" by (simp add: floor_le_iff)
  show ?thesis
  proof (cases "\<lfloor>x\<rfloor> = n")
    case True
    then have "of_int n \<le> x" by (metis of_int_floor_le)
    with le have "x = of_int n" by simp
    then show ?thesis by (simp add: round_half_even_of_int)
  next
    case False
    with fl have "\<lfloor>x\<rfloor> + 1 \<le> n" by simp
    then show ?thesis using fl by (auto simp: round_half_even_def Let_def)
  qed
qed

lemma py_round2_range: "0 \<le> x \<Longrightarrow> x \<le> 1 \<Longrightarrow> 0 \<le> py_round2 x \<and> py_round2 x \<le> 1"
proof -
  assume lo: "0 \<le> x" and hi: "x \<le> 1"
  from lo have "0 \<le> round_half_even (x * 100)"
    by (intro round_half_even_nonneg) simp
  moreover from hi have "round_half_even (x * 100) \<le> 100"
    by (intro round_half_even_le) simp
  ultimately show ?thesis
    by (simp add: py_round2_def)
qed

lemma raw_score_range: "0 \<le> raw_score keywords t \<and> raw_score keywords t \<le> 1"
proof -
  have "keyword_matches keywords t \<le> length keywords"
    by (simp add: keyword_matches_def)
  then have "(of_nat (keyword_matches keywords t) :: rat) \<le> of_nat (length keywords)"
    by simp
  then show ?thesis
    by (cases "length keywords = 0") (auto simp: raw_score_def divide_le_eq_1)
qed

lemma scored_score:
  "\<exists>s. relevance_score (scored threshold (raw_score kws t) job) = Some s \<and>
       0 \<le> s \<and> s \<le> 1 \<and> py_round2 s = s"
  using py_round2_range [of "raw_score kws t"] raw_score_range [of kws t]
  by (simp add: scored_def py_round2_idem)

section \<open>What the scorers return\<close>

lemma filter_public_health_jobs_snd:
  "snd (filter_public_health_jobs jobs) = map (\<lambda>job. scored (1/5) (simple_score job) job) jobs"
  by (induction jobs) (simp_all add: Let_def scored_def simple_score_def raw_score_def)

lemma filter_public_health_jobs_fst:
  "fst (filter_public_health_jobs jobs) =
     map (\<lambda>job. scored (1/5) (simple_score job) job) (filter (\<lambda>job. 1/5 \<le> simple_score job) jobs)"
  by (induction jobs) (simp_all add: Let_def scored_def simple_score_def raw_score_def)

lemma filter_public_health_jobs_enhanced_snd:
  "snd (filter_public_health_jobs_enhanced jobs) =
     map (\<lambda>job. scored (3/10) (enhanced_score job) job) jobs"
  by (induction jobs) (simp_all add: Let_def scored_def enhanced_score_def raw_score_def)

lemma filter_public_health_jobs_enhanced_fst:
  "fst (filter_public_health_jobs_enhanced jobs) =
     map (\<lambda>job. scored (3/10) (enhanced_score job) job)
       (filter (\<lambda>job. 3/10 \<le> enhanced_score job) jobs)"
  by (induction jobs) (simp_all add: Let_def scored_def enhanced_score_def raw_score_def)

lemma tagged_score:
  "job \<in> set (snd (filter_public_health_jobs jobs)) \<Longrightarrow>
     \<exists>s. relevance_score job = Some s \<and> 0 \<le> s \<and> s \<le> 1 \<and> py_round2 s = s"
  unfolding filter_public_health_jobs_snd simple_score_def
  using scored_score by auto

lemma tagged_score_enhanced:
  "job \<in> set (snd (filter_public_health_jobs_enhanced jobs)) \<Longrightarrow>
     \<exists>s. relevance_score job = Some s \<and> 0 \<le> s \<and> s \<le> 1 \<and> py_round2 s = s"
  unfolding filter_public_health_jobs_enhanced_snd enhanced_score_def
  using scored_score by auto

lemma filtered_subset_tagged:
  "set (fst (filter_public_health_jobs jobs)) \<subseteq> set (snd (filter_public_health_jobs jobs))"
  unfolding filter_public_health_jobs_fst filter_public_health_jobs_snd by auto

lemma filtered_subset_tagged_enhanced:
  "set (fst (filter_public_health_jobs_enhanced jobs)) \<subseteq>
   set (snd (filter_public_health_jobs_enhanced jobs))"
  unfolding filter_public_health_jobs_enhanced_fst filter_public_health_jobs_enhanced_snd by auto

section \<open>The loops over the search terms\<close>

lemma search_loop_fst:
  "fst (search_loop e sites terms) =
     concat (map (\<lambda>t. fst (filter_public_health_jobs
                             (fst (scrape_development_sites e t (Some sites))))) terms)"
  by (induction terms) (simp_all add: Let_def)

lemma search_loop_enhanced_fst:
  "fst (search_loop_enhanced b sites terms) =
     concat (map (\<lambda>t. fst (filter_public_health_jobs_enhanced
                             (fst (scrape_development_sites_enhanced b t (Some sites))))) terms)"
  by (induction terms) (simp_all add: Let_def)

lemma main_run_scored:
  "main_run e cfg = Inr (jobs, events) \<Longrightarrow> job \<in> set jobs \<Longrightarrow>
     \<exists>js. job \<in> set (snd (filter_public_health_jobs js))"
proof -
  assume run: "main_run e cfg = Inr (jobs, events)" and mem: "job \<in> set jobs"
  from run have "jobs = remove_duplicates (fst (search_loop e (config_sites cfg) (search_terms cfg)))"
    by (auto simp: main_run_def Let_def split: if_splits)
  with mem have "job \<in> set (fst (search_loop e (config_sites cfg) (search_terms cfg)))"
    using remove_duplicates_subset by blast
  then show ?thesis
    unfolding search_loop_fst using filtered_subset_tagged by auto
qed

lemma run_scraper_with_progress_scored:
  "run_scraper_with_progress start cfg = Inr (jobs, events) \<Longrightarrow> job \<in> set jobs \<Longrightarrow>
     \<exists>js. job \<in> set (snd (filter_public_health_jobs_enhanced js))"
proof -
  assume run: "run_scraper_with_progress start cfg = Inr (jobs, events)"
    and mem: "job \<in> set jobs"
  from run mem obtain b where
    "jobs = remove_duplicates (fst (search_loop_enhanced b (config_sites cfg) (search_terms cfg)))"
    by (auto simp: run_scraper_with_progress_def Let_def split: if_splits sum.splits)
  with mem have "job \<in> set (fst (search_loop_enhanced b (config_sites cfg) (search_terms cfg)))"
    using remove_duplicates_subset by blast
  then show ?thesis
    unfolding search_loop_enhanced_fst using filtered_subset_tagged_enhanced by auto
qed

lemma mixed_run:
  "main_run (api_only_env mixed_items) reliefweb_config = Inr ([hit_posting], api_events)"
  by code_simp

text \<open>
  C9. A posting either scorer has written its score into, and so every posting either
  run returns, has a score between 0 and 1 that is its own rounding to two decimals.
\<close>

theorem relevance_score_range:
  "job \<in> set (snd (filter_public_health_jobs js)) \<or>
   job \<in> set (snd (filter_public_health_jobs_enhanced js)) \<or>
   (main_run e cfg = Inr (jobs, events) \<and> job \<in> set jobs) \<or>
   (run_scraper_with_progress start cfg = Inr (jobs, events) \<and> job \<in> set jobs) \<Longrightarrow>
     \<exists>s. relevance_score job = Some s \<and> 0 \<le> s \<and> s \<le> 1 \<and> py_round2 s = s"
  using tagged_score tagged_score_enhanced main_run_scored run_scraper_with_progress_scored
  by blast

theorem relevance_score_range_witness:
  "main_run (api_only_env mixed_items) reliefweb_config = Inr ([hit_posting], api_events) \<and>
   hit_posting \<in> set [hit_posting] \<and>
   (\<exists>s. relevance_score hit_posting = Some s \<and> 0 \<le> s \<and> s \<le> 1 \<and> py_round2 s = s)"
proof -
  have mem: "hit_posting \<in> set [hit_posting]" by simp
  from relevance_score_range [of hit_posting _ "api_only_env mixed_items" reliefweb_config
      "[hit_posting]" api_events] mixed_run mem
  show ?thesis by blast
qed

section \<open>The score of a text with \<open>k\<close> keywords\<close>

text \<open>
  In the vocabulary of the browser scraper no keyword is listed twice, so its count is
  the number of distinct keywords in the text.
\<close>

lemma enhanced_keywords_distinct: "distinct enhanced_public_health_keywords"
  by (simp add: enhanced_public_health_keywords_def)

lemma enhanced_matches_distinct:
  "keyword_matches enhanced_public_health_keywords t =
     card {k \<in> set enhanced_public_health_keywords. str_in k t}"
  unfolding keyword_matches_def
  using distinct_length_filter [OF enhanced_keywords_distinct, of "\<lambda>k. str_in k t"]
  by (simp add: Int_def conj_commute)

text \<open>
  C2. The vocabulary of \<open>SimpleJobScraper\<close> has 23 entries, \<open>health\<close> among them twice. The
  text of the posting \<open>Health Officer\<close> contains one distinct keyword, \<open>health\<close>; the
  scorer counts two matches and writes 0.09, where \<open>round(1/23, 2)\<close> is 0.04.
\<close>

theorem duplicate_keyword_counted_twice:
  "length public_health_keywords = 23 \<and>
   remdups (filter (\<lambda>k. str_in k (job_text_simple health_officer)) public_health_keywords) =
     [''health''] \<and>
   keyword_matches public_health_keywords (job_text_simple health_officer) = 2 \<and>
   map relevance_score (snd (filter_public_health_jobs [health_officer])) = [Some (9 / 100)] \<and>
   py_round2 (1 / 23) = 4 / 100"
  by code_simp

section \<open>What the run keeps\<close>




section \<open>The limit of the sidebar\<close>

text \<open>
  C3. With the limit of the sidebar at 5, one search term and ReliefWeb alone, an API
  answer of six relevant items gives a run of six postings: \<open>main\<close> never passes the
  limit on, and the scraper cuts at its default of 20.
\<close>

theorem limit_not_passed_on:
  "max_jobs_per_search reliefweb_config = 5 \<and>
   search_terms reliefweb_config = [''monitoring and evaluation''] \<and>
   config_sites reliefweb_config = [''reliefweb''] \<and>
   (case main_run (api_only_env six_items) reliefweb_config of
      Inl message \<Rightarrow> False
    | Inr (jobs, events) \<Rightarrow>
        length jobs = 6 \<and>
        list_all (\<lambda>job. source job = ''reliefweb'') jobs \<and>
        list_all (\<lambda>job. case relevance_score job of None \<Rightarrow> False | Some s \<Rightarrow> 0 \<le> s) jobs)"
  by code_simp

section \<open>The events of the scrapers\<close>

lemma reliefweb_api_try_events:
  "snd (reliefweb_api_try e t n) =
     HttpGet (reliefweb_api_url t n) #
       (case session_get e (reliefweb_api_url t n) of
          Inl err \<Rightarrow> []
        | Inr r \<Rightarrow> if 400 \<le> status_code r \<and> status_code r < 600 then [] else [JsonDecode])"
  by (simp add: reliefweb_api_try_def Let_def
        split: sum.splits option.splits decoded.splits data_value.splits)

lemma reliefweb_api_try_fails:
  "(\<exists>err. fst (reliefweb_api_try e t n) = Inl err) = api_fails e t n"
  by (auto simp: reliefweb_api_try_def api_fails_def Let_def
        split: sum.splits option.splits decoded.splits data_value.splits)

lemma scrape_reliefweb_html_events:
  "snd (scrape_reliefweb_html e t n) =
     HttpGet (reliefweb_html_url t) #
       (case session_get e (reliefweb_html_url t) of Inl err \<Rightarrow> [] | Inr r \<Rightarrow> [HtmlParse])"
  by (simp add: scrape_reliefweb_html_def Let_def split: sum.splits)

lemma scrape_reliefweb_events:
  "snd (scrape_reliefweb e t n) =
     snd (reliefweb_api_try e t n) @
       (if api_fails e t n then snd (scrape_reliefweb_html e t n) else [])"
proof (cases "fst (reliefweb_api_try e t n)")
  case (Inl err)
  then have "api_fails e t n"
    using reliefweb_api_try_fails [of e t n] by auto
  with Inl show ?thesis
    by (cases "reliefweb_api_try e t n") (simp add: scrape_reliefweb_def Let_def)
next
  case (Inr jobs)
  then have "\<not> api_fails e t n"
    using reliefweb_api_try_fails [of e t n] by auto
  with Inr show ?thesis
    by (cases "reliefweb_api_try e t n") (simp add: scrape_reliefweb_def)
qed

lemma scrape_devex_events:
  "snd (scrape_devex e t n) =
     HttpGet (devex_url t) #
       (case session_get e (devex_url t) of Inl err \<Rightarrow> [] | Inr r \<Rightarrow> [HtmlParse])"
  by (simp add: scrape_devex_def Let_def split: sum.splits)

lemma urls_differ: "reliefweb_html_url t \<noteq> reliefweb_api_url t n"
  by (simp add: reliefweb_html_url_def reliefweb_api_url_def)

section \<open>Structured data first\<close>

text \<open>
  C7, as the claim states it, fails: the Devex scraper makes one request, for the search
  page, and parses HTML; it decodes no JSON.
\<close>

theorem devex_parses_html_only:
  "scrape_devex (devex_page_env 200) ''monitoring and evaluation'' 15 =
     ([devex_posting], [HttpGet (devex_url ''monitoring and evaluation''), HtmlParse])"
  by code_simp

text \<open>
  The answer \<open>{"data": null}\<close> with status 200 decodes, and the slice of \<open>null\<close> raises
  inside the outer \<open>try\<close>: the scraper goes on to request the HTML page.
\<close>

lemma null_data_falls_back:
  "snd (scrape_reliefweb null_data_env ''monitoring and evaluation'' 20) =
     [HttpGet (reliefweb_api_url ''monitoring and evaluation'' 20), JsonDecode,
      HttpGet (reliefweb_html_url ''monitoring and evaluation'')]"
  by code_simp

text \<open>
  C7, amended. The ReliefWeb scraper of \<open>SimpleJobScraper\<close> asks the JSON API first, and
  requests the HTML page exactly when the outer \<open>try\<close> of the API path raises: the request
  raises, the status is from 400 to 599 (\<open>raise_for_status\<close>), the decoding raises, the
  decoded body is not an object, or its \<open>data\<close> is neither a list nor a string. The Devex
  scraper and the two browser scrapers have no structured path: their first request is
  for the page and they never decode JSON.
\<close>

theorem reliefweb_api_first:
  "hd (snd (scrape_reliefweb e t n)) = HttpGet (reliefweb_api_url t n) \<and>
   (HttpGet (reliefweb_html_url t) \<in> set (snd (scrape_reliefweb e t n))) =
     (case session_get e (reliefweb_api_url t n) of
        Inl err \<Rightarrow> True
      | Inr response \<Rightarrow>
          (400 \<le> status_code response \<and> status_code response < 600) \<or>
          (case json_body response of
             None \<Rightarrow> True
           | Some JsonOther \<Rightarrow> True
           | Some (JsonObject data) \<Rightarrow> payload_data data = Some DataUnsliceable)) \<and>
   (HtmlParse \<in> set (snd (scrape_reliefweb e t n))) =
     (api_fails e t n \<and> (\<exists>response. session_get e (reliefweb_html_url t) = Inr response)) \<and>
   snd (scrape_devex e t n) \<in>
     {[HttpGet (devex_url t)], [HttpGet (devex_url t), HtmlParse]} \<and>
   snd (scrape_unjobs b t n) = [BrowserGet (unjobs_url t)] \<and>
   snd (scrape_reliefweb_enhanced b t n) = [BrowserGet (reliefweb_html_url t)]"
proof -
  have a: "hd (snd (scrape_reliefweb e t n)) = HttpGet (reliefweb_api_url t n)"
    by (simp add: scrape_reliefweb_events reliefweb_api_try_events)
  have b: "(HttpGet (reliefweb_html_url t) \<in> set (snd (scrape_reliefweb e t n))) =
     (case session_get e (reliefweb_api_url t n) of
        Inl err \<Rightarrow> True
      | Inr response \<Rightarrow>
          (400 \<le> status_code response \<and> status_code response < 600) \<or>
          (case json_body response of
             None \<Rightarrow> True
           | Some JsonOther \<Rightarrow> True
           | Some (JsonObject data) \<Rightarrow> payload_data data = Some DataUnsliceable))"
    unfolding api_fails_def [symmetric]
    by (auto simp: scrape_reliefweb_events reliefweb_api_try_events
          scrape_reliefweb_html_events urls_differ split: sum.splits)
  have c: "(HtmlParse \<in> set (snd (scrape_reliefweb e t n))) =
     (api_fails e t n \<and> (\<exists>response. session_get e (reliefweb_html_url t) = Inr response))"
  proof (cases "session_get e (reliefweb_html_url t)")
    case (Inl err)
    then show ?thesis
      by (auto simp: scrape_reliefweb_events reliefweb_api_try_events
            scrape_reliefweb_html_events split: sum.splits)
  next
    case (Inr response)
    then show ?thesis
      by (auto simp: scrape_reliefweb_events reliefweb_api_try_events
            scrape_reliefweb_html_events split: sum.splits)
  qed
  have d: "snd (scrape_devex e t n) \<in>
     {[HttpGet (devex_url t)], [HttpGet (devex_url t), HtmlParse]}"
    by (simp add: scrape_devex_events split: sum.splits)
  have f: "snd (scrape_unjobs b t n) = [BrowserGet (unjobs_url t)]"
    by (simp add: scrape_unjobs_def Let_def split: sum.splits)
  have g: "snd (scrape_reliefweb_enhanced b t n) = [BrowserGet (reliefweb_html_url t)]"
    by (simp add: scrape_reliefweb_enhanced_def Let_def split: sum.splits)
  from a b c d f g show ?thesis by blast
qed

section \<open>A failing fetch\<close>

lemma scrape_reliefweb_fst:
  "fst (scrape_reliefweb e t n) =
     (case fst (reliefweb_api_try e t n) of
        Inr jobs \<Rightarrow> jobs
      | Inl err \<Rightarrow> fst (scrape_reliefweb_html e t n))"
  by (cases "reliefweb_api_try e t n") (simp add: scrape_reliefweb_def Let_def split: sum.splits)

lemma html_fails_empty: "html_fails e t \<Longrightarrow> fst (scrape_reliefweb_html e t n) = []"
  by (auto simp: html_fails_def scrape_reliefweb_html_def Let_def split: sum.splits)

lemma reliefweb_fails_empty:
  "api_fails e t n \<Longrightarrow> html_fails e t \<Longrightarrow> fst (scrape_reliefweb e t n) = []"
proof -
  assume api: "api_fails e t n" and page: "html_fails e t"
  from api obtain err where "fst (reliefweb_api_try e t n) = Inl err"
    using reliefweb_api_try_fails [of e t n] by blast
  then show ?thesis
    by (simp add: scrape_reliefweb_fst html_fails_empty [OF page])
qed

lemma devex_fails_empty: "devex_fails e t \<Longrightarrow> fst (scrape_devex e t n) = []"
  by (auto simp: devex_fails_def scrape_devex_def Let_def split: sum.splits)

lemma pair_jobs_unfold:
  "pair_jobs e t site =
     (if site = ''reliefweb'' then fst (scrape_reliefweb e t 20)
      else if site = ''devex'' then fst (scrape_devex e t 15) else [])"
  by (simp add: pair_jobs_def scrape_development_sites_def Let_def)

lemma fetch_fails_empty: "fetch_fails e t site \<Longrightarrow> pair_jobs e t site = []"
  unfolding pair_jobs_unfold fetch_fails_def
  by (auto simp: reliefweb_fails_empty devex_fails_empty split: if_splits)

lemma scrape_sites_loop_pairs:
  "fst (scrape_sites_loop e t sites) = concat (map (pair_jobs e t) sites)"
  by (induction sites) (simp_all add: Let_def pair_jobs_unfold)

lemma scrape_sites_loop_events:
  "site \<in> set sites \<Longrightarrow> site = ''reliefweb'' \<or> site = ''devex'' \<Longrightarrow>
     HttpGet (first_address site t) \<in> set (snd (scrape_sites_loop e t sites))"
proof (induction sites)
  case Nil
  then show ?case by simp
next
  case (Cons s sites)
  have rw: "HttpGet (reliefweb_api_url t 20) \<in> set (snd (scrape_reliefweb e t 20))"
    by (simp add: scrape_reliefweb_events reliefweb_api_try_events)
  have dx: "HttpGet (devex_url t) \<in> set (snd (scrape_devex e t 15))"
    by (simp add: scrape_devex_events)
  show ?case
  proof (cases "site = s")
    case True
    with Cons.prems(2) rw dx show ?thesis
      by (auto simp: Let_def first_address_def)
  next
    case False
    with Cons.prems have "site \<in> set sites" by simp
    from Cons.IH [OF this Cons.prems(2)] show ?thesis
      by (simp add: Let_def)
  qed
qed

lemma search_loop_events:
  "t \<in> set terms \<Longrightarrow> site \<in> set sites \<Longrightarrow> site = ''reliefweb'' \<or> site = ''devex'' \<Longrightarrow>
     HttpGet (first_address site t) \<in> set (snd (search_loop e sites terms))"
proof (induction terms)
  case Nil
  then show ?case by simp
next
  case (Cons u terms)
  show ?case
  proof (cases "t = u")
    case True
    with scrape_sites_loop_events [OF Cons.prems(2) Cons.prems(3), of u e] show ?thesis
      by (simp add: Let_def scrape_development_sites_def)
  next
    case False
    with Cons.prems have "t \<in> set terms" by simp
    from Cons.IH [OF this Cons.prems(2) Cons.prems(3)] show ?thesis
      by (simp add: Let_def)
  qed
qed

lemma search_loop_pairs:
  "fst (search_loop e sites terms) =
     concat (map (\<lambda>t. fst (filter_public_health_jobs (concat (map (pair_jobs e t) sites)))) terms)"
  by (simp add: search_loop_fst scrape_development_sites_def scrape_sites_loop_pairs)

text \<open>The browser scraper.\<close>

lemma pair_jobs_enhanced_unfold:
  "pair_jobs_enhanced b t site =
     (if site = ''reliefweb'' then fst (scrape_reliefweb_enhanced b t 20)
      else if site = ''unjobs'' then fst (scrape_unjobs b t 15) else [])"
  by (simp add: pair_jobs_enhanced_def scrape_development_sites_enhanced_def Let_def)

lemma fetch_fails_enhanced_empty:
  "fetch_fails_enhanced b t site \<Longrightarrow> pair_jobs_enhanced b t site = []"
  unfolding pair_jobs_enhanced_unfold fetch_fails_enhanced_def
  by (auto simp: scrape_reliefweb_enhanced_def scrape_unjobs_def Let_def
        split: if_splits sum.splits)

lemma scrape_sites_loop_enhanced_pairs:
  "fst (scrape_sites_loop_enhanced b t sites) = concat (map (pair_jobs_enhanced b t) sites)"
  by (induction sites) (simp_all add: Let_def pair_jobs_enhanced_unfold)

lemma scrape_sites_loop_enhanced_events:
  "site \<in> set sites \<Longrightarrow> site = ''reliefweb'' \<or> site = ''unjobs'' \<Longrightarrow>
     BrowserGet (first_address_enhanced site t) \<in> set (snd (scrape_sites_loop_enhanced b t sites))"
proof (induction sites)
  case Nil
  then show ?case by simp
next
  case (Cons s sites)
  have rw: "BrowserGet (reliefweb_html_url t) \<in> set (snd (scrape_reliefweb_enhanced b t 20))"
    by (simp add: scrape_reliefweb_enhanced_def Let_def split: sum.splits)
  have uj: "BrowserGet (unjobs_url t) \<in> set (snd (scrape_unjobs b t 15))"
    by (simp add: scrape_unjobs_def Let_def split: sum.splits)
  show ?case
  proof (cases "site = s")
    case True
    with Cons.prems(2) rw uj show ?thesis
      by (auto simp: Let_def first_address_enhanced_def)
  next
    case False
    with Cons.prems have "site \<in> set sites" by simp
    from Cons.IH [OF this Cons.prems(2)] show ?thesis
      by (simp add: Let_def)
  qed
qed

lemma search_loop_enhanced_events:
  "t \<in> set terms \<Longrightarrow> site \<in> set sites \<Longrightarrow> site = ''reliefweb'' \<or> site = ''unjobs'' \<Longrightarrow>
     BrowserGet (first_address_enhanced site t) \<in> set (snd (search_loop_enhanced b sites terms))"
proof (induction terms)
  case Nil
  then show ?case by simp
next
  case (Cons u terms)
  show ?case
  proof (cases "t = u")
    case True
    with scrape_sites_loop_enhanced_events [OF Cons.prems(2) Cons.prems(3), of u b] show ?thesis
      by (simp add: Let_def scrape_development_sites_enhanced_def)
  next
    case False
    with Cons.prems have "t \<in> set terms" by simp
    from Cons.IH [OF this Cons.prems(2) Cons.prems(3)] show ?thesis
      by (simp add: Let_def)
  qed
qed

lemma search_loop_enhanced_pairs:
  "fst (search_loop_enhanced b sites terms) =
     concat (map (\<lambda>t. fst (filter_public_health_jobs_enhanced
                             (concat (map (pair_jobs_enhanced b t) sites)))) terms)"
  by (simp add: search_loop_enhanced_fst scrape_development_sites_enhanced_def
        scrape_sites_loop_enhanced_pairs)

text \<open>
  C6, as the claim states it, fails on a response that is not 2xx. The browser scraper
  has no access to the status of a response: the page the server sent with status 503 is
  parsed like any other, the UNjobs pair contributes the posting found on it, and the
  run returns that posting.
\<close>

theorem browser_error_page_is_parsed:
  "(case driver_get error_page_browser (unjobs_url ''monitoring and evaluation'') of
      Inl err \<Rightarrow> False
    | Inr page \<Rightarrow> page_status page = 503) \<and>
   fst (scrape_unjobs error_page_browser ''monitoring and evaluation'' 15) =
     [unjobs_hit\<lparr>relevance_score := None, is_public_health := None\<rparr>] \<and>
   run_scraper_with_progress (Inr error_page_browser) unjobs_config =
     Inr ([unjobs_hit], [BrowserGet (unjobs_url ''monitoring and evaluation'')])"
  by code_simp

text \<open>
  C6, amended. A pair of a search term and a site fails when its request raises (a
  timeout, a connection error, an error of the browser), when its page gives the
  selectors nothing to match (for the browser's ReliefWeb page also when the wait for an
  \<open>article\<close> times out) and, for the ReliefWeb API of \<open>SimpleJobScraper\<close>, when the outer
  \<open>try\<close> of the API path raises (a status from 400 to 599 among its causes) and the HTML
  fallback fails in its turn. A failing pair contributes no posting. A run of \<open>main\<close>
  with a search term and a site selected always returns and propagates no exception; so
  does a run of \<open>run_scraper_with_progress\<close> once \<open>EnhancedJobScraper(headless=True)\<close> has
  started its browser (that call stands outside every \<open>try\<close>). The collection of the run
  is made of what each pair contributes, scored, filtered and deduplicated, and every
  pair of a selected term and a known site is requested, whatever happened to the pairs
  before it. The browser scraper cannot see the status of a response.
\<close>

theorem failing_pair_is_isolated:
  "(fetch_fails e t site \<longrightarrow> pair_jobs e t site = []) \<and>
   (fetch_fails_enhanced b t site' \<longrightarrow> pair_jobs_enhanced b t site' = []) \<and>
   (search_terms cfg \<noteq> [] \<and> config_sites cfg \<noteq> [] \<longrightarrow>
      (\<exists>events.
         main_run e cfg =
           Inr (remove_duplicates
                  (concat (map (\<lambda>term. fst (filter_public_health_jobs
                                              (concat (map (pair_jobs e term) (config_sites cfg)))))
                             (search_terms cfg))),
                events) \<and>
         (\<forall>term \<in> set (search_terms cfg).
            \<forall>s \<in> set (config_sites cfg) \<inter> {''reliefweb'', ''devex''}.
              HttpGet (first_address s term) \<in> set events)) \<and>
      (\<exists>events.
         run_scraper_with_progress (Inr b) cfg =
           Inr (remove_duplicates
                  (concat (map (\<lambda>term. fst (filter_public_health_jobs_enhanced
                                              (concat (map (pair_jobs_enhanced b term)
                                                         (config_sites cfg)))))
                             (search_terms cfg))),
                events) \<and>
         (\<forall>term \<in> set (search_terms cfg).
            \<forall>s \<in> set (config_sites cfg) \<inter> {''reliefweb'', ''unjobs''}.
              BrowserGet (first_address_enhanced s term) \<in> set events)))"
proof -
  have a: "fetch_fails e t site \<longrightarrow> pair_jobs e t site = []"
    using fetch_fails_empty by blast
  have b: "fetch_fails_enhanced b t site' \<longrightarrow> pair_jobs_enhanced b t site' = []"
    using fetch_fails_enhanced_empty by blast
  have c: "\<exists>events.
         main_run e cfg =
           Inr (remove_duplicates
                  (concat (map (\<lambda>term. fst (filter_public_health_jobs
                                              (concat (map (pair_jobs e term) (config_sites cfg)))))
                             (search_terms cfg))),
                events) \<and>
         (\<forall>term \<in> set (search_terms cfg).
            \<forall>s \<in> set (config_sites cfg) \<inter> {''reliefweb'', ''devex''}.
              HttpGet (first_address s term) \<in> set events)"
    if sel: "search_terms cfg \<noteq> []" "config_sites cfg \<noteq> []"
  proof -
    have "main_run e cfg =
        Inr (remove_duplicates (fst (search_loop e (config_sites cfg) (search_terms cfg))),
             snd (search_loop e (config_sites cfg) (search_terms cfg)))"
      using sel by (simp add: main_run_def Let_def)
    moreover have "\<forall>term \<in> set (search_terms cfg).
            \<forall>s \<in> set (config_sites cfg) \<inter> {''reliefweb'', ''devex''}.
              HttpGet (first_address s term)
                \<in> set (snd (search_loop e (config_sites cfg) (search_terms cfg)))"
      using search_loop_events by blast
    ultimately show ?thesis
      unfolding search_loop_pairs by blast
  qed
  have d: "\<exists>events.
         run_scraper_with_progress (Inr b) cfg =
           Inr (remove_duplicates
                  (concat (map (\<lambda>term. fst (filter_public_health_jobs_enhanced
                                              (concat (map (pair_jobs_enhanced b term)
                                                         (config_sites cfg)))))
                             (search_terms cfg))),
                events) \<and>
         (\<forall>term \<in> set (search_terms cfg).
            \<forall>s \<in> set (config_sites cfg) \<inter> {''reliefweb'', ''unjobs''}.
              BrowserGet (first_address_enhanced s term) \<in> set events)"
    if sel: "search_terms cfg \<noteq> []" "config_sites cfg \<noteq> []"
  proof -
    have "run_scraper_with_progress (Inr b) cfg =
        Inr (remove_duplicates (fst (search_loop_enhanced b (config_sites cfg) (search_terms cfg))),
             snd (search_loop_enhanced b (config_sites cfg) (search_terms cfg)))"
      using sel by (simp add: run_scraper_with_progress_def Let_def)
    moreover have "\<forall>term \<in> set (search_terms cfg).
            \<forall>s \<in> set (config_sites cfg) \<inter> {''reliefweb'', ''unjobs''}.
              BrowserGet (first_address_enhanced s term)
                \<in> set (snd (search_loop_enhanced b (config_sites cfg) (search_terms cfg)))"
      using search_loop_enhanced_events by blast
    ultimately show ?thesis
      unfolding search_loop_enhanced_pairs by blast
  qed
  from a b c d show ?thesis by blast
qed

text \<open>
  A run of each scraper over the three sites. On the network Devex times out and the
  ReliefWeb API answers; in the browser the ReliefWeb request raises and UNjobs answers.
  The failing pairs contribute nothing, the pairs after them are requested, and both
  runs return the posting of the pair that answered.
\<close>

theorem failing_pair_is_isolated_witness:
  "fetch_fails (api_only_env mixed_items) ''monitoring and evaluation'' ''devex'' \<and>
   pair_jobs (api_only_env mixed_items) ''monitoring and evaluation'' ''devex'' = [] \<and>
   fetch_fails_enhanced unjobs_only_browser ''monitoring and evaluation'' ''reliefweb'' \<and>
   pair_jobs_enhanced unjobs_only_browser ''monitoring and evaluation'' ''reliefweb'' = [] \<and>
   search_terms all_sites_config \<noteq> [] \<and> config_sites all_sites_config \<noteq> [] \<and>
   main_run (api_only_env mixed_items) all_sites_config =
     Inr ([hit_posting],
          [HttpGet (devex_url ''monitoring and evaluation''),
           HttpGet (reliefweb_api_url ''monitoring and evaluation'' 20), JsonDecode]) \<and>
   HttpGet (first_address ''reliefweb'' ''monitoring and evaluation'')
     \<in> set [HttpGet (devex_url ''monitoring and evaluation''),
            HttpGet (reliefweb_api_url ''monitoring and evaluation'' 20), JsonDecode] \<and>
   run_scraper_with_progress (Inr unjobs_only_browser) all_sites_config =
     Inr ([unjobs_hit],
          [BrowserGet (reliefweb_html_url ''monitoring and evaluation''),
           BrowserGet (unjobs_url ''monitoring and evaluation'')]) \<and>
   BrowserGet (first_address_enhanced ''unjobs'' ''monitoring and evaluation'')
     \<in> set [BrowserGet (reliefweb_html_url ''monitoring and evaluation''),
            BrowserGet (unjobs_url ''monitoring and evaluation'')]"
proof -
  have h1: "fetch_fails (api_only_env mixed_items) ''monitoring and evaluation'' ''devex''"
    by code_simp
  have h2: "fetch_fails_enhanced unjobs_only_browser ''monitoring and evaluation'' ''reliefweb''"
    by code_simp
  have h3: "search_terms all_sites_config \<noteq> [] \<and> config_sites all_sites_config \<noteq> []"
    by (simp add: all_sites_config_def)
  have run: "main_run (api_only_env mixed_items) all_sites_config =
     Inr ([hit_posting],
          [HttpGet (devex_url ''monitoring and evaluation''),
           HttpGet (reliefweb_api_url ''monitoring and evaluation'' 20), JsonDecode])"
    by code_simp
  have mem: "HttpGet (first_address ''reliefweb'' ''monitoring and evaluation'')
     \<in> set [HttpGet (devex_url ''monitoring and evaluation''),
            HttpGet (reliefweb_api_url ''monitoring and evaluation'' 20), JsonDecode]"
    by (simp add: first_address_def)
  have run': "run_scraper_with_progress (Inr unjobs_only_browser) all_sites_config =
     Inr ([unjobs_hit],
          [BrowserGet (reliefweb_html_url ''monitoring and evaluation''),
           BrowserGet (unjobs_url ''monitoring and evaluation'')])"
    by code_simp
  have mem': "BrowserGet (first_address_enhanced ''unjobs'' ''monitoring and evaluation'')
     \<in> set [BrowserGet (reliefweb_html_url ''monitoring and evaluation''),
            BrowserGet (unjobs_url ''monitoring and evaluation'')]"
    by (simp add: first_address_enhanced_def)
  from failing_pair_is_isolated [of "api_only_env mixed_items" "''monitoring and evaluation''"
      "''devex''" unjobs_only_browser "''reliefweb''" all_sites_config] h1 h2 h3 run mem run' mem'
  show ?thesis by blast
qed


end
